theory Spec2Isabelle
  imports Main "HOL-Library.Word"
begin

section \<open>Shared vocabulary\<close>

text \<open>
  Payloads and delivery bodies are Go byte slices. Go maps with string values are partial
  maps; reading a missing key of a \<^verbatim>\<open>map[string]string\<close> yields the empty string,
  which \<open>map_get\<close> writes out.
\<close>

type_synonym bytes = "8 word list"

definition map_get :: "(string \<rightharpoonup> string) \<Rightarrow> string \<Rightarrow> string" where
  "map_get m k = (case m k of None \<Rightarrow> [] | Some v \<Rightarrow> v)"

section \<open>The endpoint dispatcher (server/endpoint.go)\<close>

subsection \<open>Data\<close>

text \<open>
  The run-time panics that the modelled code can raise: a send on a closed channel, the
  closing of a closed channel, and an assignment to an entry of a nil map.
\<close>

datatype go_panic = SendOnClosedChannel | CloseOfClosedChannel | AssignToNilMap

text \<open>
  Modelled from the spec: the canonical error type \<^verbatim>\<open>errors.Error\<close> lives in the
  errors package, outside the files modelled here. The dispatcher reads and
  writes its \<^verbatim>\<open>PrivateContext\<close>, a Go map from strings to strings; the error also has
  a kind and a message. A Go map may be nil (\<open>None\<close>): every key of a nil map reads as the
  empty string, and an assignment to one of its entries panics.
\<close>

record Error =
  Code :: string
  Message :: string
  PrivateContext :: "(string \<rightharpoonup> string) option"

text \<open>\<^verbatim>\<open>m[k]\<close> and \<^verbatim>\<open>e.PrivateContext[k] = v\<close> on such a map.\<close>

definition context_get :: "(string \<rightharpoonup> string) option \<Rightarrow> string \<Rightarrow> string" where
  "context_get c k = (case c of None \<Rightarrow> [] | Some m \<Rightarrow> map_get m k)"

definition setPrivateContext :: "Error \<Rightarrow> string \<Rightarrow> string \<Rightarrow> go_panic + Error" where
  "setPrivateContext e k v =
     (case PrivateContext e of
        None \<Rightarrow> Inl AssignToNilMap
      | Some m \<Rightarrow> Inr (e\<lparr>PrivateContext := Some (m(k \<mapsto> v))\<rparr>))"

text \<open>
  A value of Go's \<^verbatim>\<open>error\<close> interface is either a canonical error or any other error,
  of which only the message matters here (\<^verbatim>\<open>fmt.Errorf\<close> builds the latter).
\<close>

datatype go_error = Canonical Error | Errorf string

text \<open>
  Modelled from the spec: \<^verbatim>\<open>errors.Wrap\<close> is defined in that package too. It
  wraps an error into the canonical error type; an error that already is canonical is
  returned as it is, with the context it carries. The kind given to a foreign error is not
  fixed by the spec and is the parameter \<open>dflt\<close>; its context is taken to be an allocated,
  empty map. The functions below take the wrapping function as their parameter \<open>wrap\<close>,
  and \<open>Wrap\<close> is only used to instantiate it.
\<close>

fun Wrap :: "string \<Rightarrow> go_error \<Rightarrow> Error" where
  "Wrap dflt (Canonical e) = e"
| "Wrap dflt (Errorf m) = \<lparr>Code = dflt, Message = m, PrivateContext = Some Map.empty\<rparr>"

text \<open>
  The \<^verbatim>\<open>Request\<close> interface of the server package, as far as the dispatcher uses it:
  \<^verbatim>\<open>Service()\<close>, \<^verbatim>\<open>Payload()\<close>, \<^verbatim>\<open>Body()\<close> and \<^verbatim>\<open>SetBody\<close>. The body is the
  decoded message, \<open>None\<close> while nothing has been set.
\<close>

record 'b Request =
  Service :: string
  Payload :: bytes
  Body :: "'b option"

text \<open>
  \<^verbatim>\<open>Endpoint\<close>: the handler returns a response and an error, either of which may be nil.
  The request prototype is nil (\<open>None\<close>) or a pointer to a message type \<open>'t\<close>; the
  response prototype is never read by the code.
\<close>

record ('t, 'b, 'r) Endpoint =
  Name :: string
  Handler :: "'b Request \<Rightarrow> 'r option \<times> go_error option"
  RequestProto :: "'t option"
  ResponseProto :: "'t option"

text \<open>
  What one call of \<^verbatim>\<open>HandleRequest\<close> does and returns: whether the payload was handed
  to the decoder, the requests the user handler was invoked with (in order), the request
  as the caller sees it afterwards (\<^verbatim>\<open>SetBody\<close> mutates it), and the two return values;
  or, when the call panics, the panic in place of the return values.
\<close>

record ('b, 'r) handled =
  decoded :: bool
  invoked :: "'b Request list"
  request :: "'b Request"
  response :: "'r option"
  err :: "go_error option"
  panic :: "go_panic option"

subsection \<open>Operations\<close>

definition enrichError ::
  "(go_error \<Rightarrow> Error) \<Rightarrow> go_error \<Rightarrow> 'b Request \<Rightarrow> ('t, 'b, 'r) Endpoint \<Rightarrow> go_panic + Error" where
  "enrichError wrap e ctx endpoint =
     (let wrappedErr = wrap e
      in case (if context_get (PrivateContext wrappedErr) ''service'' = []
               then setPrivateContext wrappedErr ''service'' (Service ctx)
               else Inr wrappedErr) of
           Inl p \<Rightarrow> Inl p
         | Inr wrappedErr \<Rightarrow>
             (if context_get (PrivateContext wrappedErr) ''endpoint'' = []
              then setPrivateContext wrappedErr ''endpoint'' (Name endpoint)
              else Inr wrappedErr))"

text \<open>The part of \<^verbatim>\<open>HandleRequest\<close> after the decoding block.\<close>

definition invokeHandler ::
  "(go_error \<Rightarrow> Error) \<Rightarrow> ('t, 'b, 'r) Endpoint \<Rightarrow> bool \<Rightarrow> 'b Request \<Rightarrow> ('b, 'r) handled" where
  "invokeHandler wrap e dec req =
     (case Handler e req of
        (resp, Some er) \<Rightarrow>
          (case enrichError wrap er req e of
             Inl p \<Rightarrow>
               \<lparr>decoded = dec, invoked = [req], request = req, response = None, err = None,
                panic = Some p\<rparr>
           | Inr enriched \<Rightarrow>
               \<lparr>decoded = dec, invoked = [req], request = req, response = resp,
                err = Some (Canonical enriched), panic = None\<rparr>)
      | (resp, None) \<Rightarrow>
          \<lparr>decoded = dec, invoked = [req], request = req, response = resp, err = None,
           panic = None\<rparr>)"

text \<open>
  \<^verbatim>\<open>proto.Unmarshal\<close> belongs to the protobuf library; it is the parameter \<open>unmarshal\<close>,
  from the prototype's type and the payload to an error or the decoded body.
\<close>

definition HandleRequest ::
  "(go_error \<Rightarrow> Error) \<Rightarrow> ('t \<Rightarrow> bytes \<Rightarrow> go_error + 'b) \<Rightarrow> ('t, 'b, 'r) Endpoint \<Rightarrow> 'b Request
     \<Rightarrow> ('b, 'r) handled" where
  "HandleRequest wrap unmarshal e req =
     (case RequestProto e of
        Some proto \<Rightarrow>
          (case unmarshal proto (Payload req) of
             Inl _ \<Rightarrow>
               \<lparr>decoded = True, invoked = [], request = req, response = None,
                err = Some (Canonical (wrap (Errorf ''Could not unmarshal request''))),
                panic = None\<rparr>
           | Inr body \<Rightarrow> invokeHandler wrap e True (req\<lparr>Body := Some body\<rparr>))
      | None \<Rightarrow> invokeHandler wrap e False req)"

section \<open>The RabbitMQ transport (package rabbit)\<close>

subsection \<open>Messages, deliveries and publishings\<close>

text \<open>
  Modelled from the spec: the message package is outside the files modelled here. A message
  has an id, a service, an endpoint, headers (a mapping from strings to strings) and a
  payload; it is a request or a response. \<^verbatim>\<open>Headers()\<close> is taken to return a copy of the
  header map. \<^verbatim>\<open>NewRequest\<close> and \<^verbatim>\<open>NewResponse\<close> build empty messages.
\<close>

datatype kind = IsRequest | IsResponse

record message =
  m_kind :: kind
  m_Id :: string
  m_Service :: string
  m_Endpoint :: string
  m_Headers :: "string \<rightharpoonup> string"
  m_Payload :: bytes

definition NewRequest :: message where
  "NewRequest = \<lparr>m_kind = IsRequest, m_Id = [], m_Service = [], m_Endpoint = [],
     m_Headers = Map.empty, m_Payload = []\<rparr>"

definition NewResponse :: message where
  "NewResponse = \<lparr>m_kind = IsResponse, m_Id = [], m_Service = [], m_Endpoint = [],
     m_Headers = Map.empty, m_Payload = []\<rparr>"

text \<open>
  An \<^verbatim>\<open>amqp.Table\<close> maps strings to values of any type; the code only asks whether a
  value is a string.
\<close>

datatype field = FString string | FInt int | FBool bool

type_synonym table = "string \<rightharpoonup> field"

record delivery =
  d_CorrelationId :: string
  d_ReplyTo :: string
  d_RoutingKey :: string
  d_Headers :: table
  d_Body :: bytes

text \<open>The fields of \<^verbatim>\<open>amqp.Publishing\<close> the code sets, the timestamp apart.\<close>

record publishing =
  p_CorrelationId :: string
  p_Body :: bytes
  p_ReplyTo :: string
  p_Headers :: table

text \<open>The errors the transport returns; \<open>ErrOther\<close> stands for a uuid or broker error.\<close>

datatype rabbit_error = ErrTimeout | ErrAlreadyListening | ErrDying | ErrOther string

subsection \<open>Tombs and channels\<close>

text \<open>
  A tomb (library tomb.v2) tracks goroutines: \<^verbatim>\<open>Go\<close> counts one in, \<^verbatim>\<open>Kill\<close> marks the
  tomb dying, and when the last tracked goroutine returns the tomb is dying and dead.
  \<^verbatim>\<open>Wait\<close> blocks until the tomb is dead.
\<close>

record tomb =
  tb_alive :: nat
  tb_dying :: bool
  tb_dead :: bool

definition new_tomb :: tomb where
  "new_tomb = \<lparr>tb_alive = 0, tb_dying = False, tb_dead = False\<rparr>"

definition tomb_Go :: "tomb \<Rightarrow> tomb" where
  "tomb_Go t = t\<lparr>tb_alive := Suc (tb_alive t)\<rparr>"

definition tomb_Kill :: "tomb \<Rightarrow> tomb" where
  "tomb_Kill t = t\<lparr>tb_dying := True\<rparr>"

definition tomb_done :: "tomb \<Rightarrow> tomb" where
  "tomb_done t =
     (if tb_alive t \<le> 1 then t\<lparr>tb_alive := 0, tb_dying := True, tb_dead := True\<rparr>
      else t\<lparr>tb_alive := tb_alive t - 1\<rparr>)"

text \<open>
  A caller-owned request channel: whether it has been closed, and the requests sent on
  it so far.
\<close>

record reqchan =
  ch_closed :: bool
  ch_sent :: "message list"

subsection \<open>The transport\<close>

text \<open>
  \<^verbatim>\<open>rabbitTransport\<close> with the part of the heap and of the broker its methods act on:
  the buffers of the response channels made by \<^verbatim>\<open>Send\<close> (capacity 1), the listeners'
  tombs, the callers' request channels, the calls of \<^verbatim>\<open>Publish\<close> made so far, and the
  panic that has crashed the process, if any (after which nothing that is returned
  matters). The connection handle and its readiness
  channel belong to the broker client; readiness reaches the functions below as an event.
\<close>

record rabbitTransport =
  tomb :: tomb
  runOnce :: bool
  replyQueue :: string
  inflightReqs :: "string \<rightharpoonup> nat"
  listeners :: "string \<rightharpoonup> nat"
  rspChans :: "nat \<Rightarrow> message list"
  nextChan :: nat
  tombs :: "nat \<Rightarrow> tomb"
  nextTomb :: nat
  reqChans :: "nat \<Rightarrow> reqchan"
  published :: "(string \<times> string \<times> publishing) list"
  panicked :: "go_panic option"

definition DirectReplyQueue :: string where
  "DirectReplyQueue = ''amq.rabbitmq.reply-to''"

definition NewTransport :: rabbitTransport where
  "NewTransport =
     \<lparr>tomb = new_tomb, runOnce = False, replyQueue = DirectReplyQueue,
      inflightReqs = Map.empty, listeners = Map.empty,
      rspChans = (\<lambda>_. []), nextChan = 0, tombs = (\<lambda>_. new_tomb), nextTomb = 0,
      reqChans = (\<lambda>_. \<lparr>ch_closed = False, ch_sent = []\<rparr>), published = [], panicked = None\<rparr>"

definition deliveryChan :: "string \<Rightarrow> string" where
  "deliveryChan serviceName = serviceName"

text \<open>
  \<^verbatim>\<open>Ready()\<close> and \<^verbatim>\<open>connection()\<close> both begin with \<^verbatim>\<open>runOnce.Do(t.run)\<close>, which on its
  first call starts the supervisor as a goroutine of the transport's tomb.
\<close>

definition start :: "rabbitTransport \<Rightarrow> rabbitTransport" where
  "start t = (if runOnce t then t else t\<lparr>runOnce := True, tomb := tomb_Go (tomb t)\<rparr>)"

text \<open>A call of the connection's \<^verbatim>\<open>Publish\<close>; its result comes from the broker.\<close>

definition Publish :: "rabbitTransport \<Rightarrow> string \<Rightarrow> string \<Rightarrow> publishing \<Rightarrow> rabbitTransport" where
  "Publish t exchange routingKey p = (start t)\<lparr>published := published t @ [(exchange, routingKey, p)]\<rparr>"

subsection \<open>Deliveries\<close>

text \<open>\<^verbatim>\<open>enc, _ := delivery.Headers["Content-Encoding"].(string)\<close>\<close>

definition contentEncoding :: "delivery \<Rightarrow> string" where
  "contentEncoding d = (case d_Headers d ''Content-Encoding'' of Some (FString s) \<Rightarrow> s | _ \<Rightarrow> [])"

text \<open>
  \<^verbatim>\<open>tableToHeaders\<close> and \<^verbatim>\<open>headersToTable\<close> are defined in another file of the package;
  they are the parameters \<open>t2h\<close> and \<open>h2t\<close>.
\<close>

definition deliveryToMessage :: "(table \<Rightarrow> string \<rightharpoonup> string) \<Rightarrow> delivery \<Rightarrow> message \<Rightarrow> message" where
  "deliveryToMessage t2h d msg =
     (let msg = msg\<lparr>m_Id := d_CorrelationId d\<rparr>;
          msg = msg\<lparr>m_Headers := t2h (d_Headers d)\<rparr>;
          msg = msg\<lparr>m_Headers := (m_Headers msg)(''X-Rabbit-ReplyTo'' \<mapsto> d_ReplyTo d)\<rparr>;
          msg = msg\<lparr>m_Payload := d_Body d\<rparr>
      in if m_kind msg = IsRequest then
           (let msg = (case d_Headers d ''Service'' of
                         Some (FString s) \<Rightarrow> msg\<lparr>m_Service := s\<rparr> | _ \<Rightarrow> msg);
                msg = (case d_Headers d ''Endpoint'' of
                         Some (FString s) \<Rightarrow> msg\<lparr>m_Endpoint := s\<rparr> | _ \<Rightarrow> msg)
            in msg)
         else msg)"

text \<open>
  What a delivery handler did, as its log lines tell: handed the message over, found no
  caller for it, refused its encoding, or is parked on a full channel (it then drops the
  message after \<^verbatim>\<open>chanSendTimeout\<close> unless the receiver makes room before).
\<close>

datatype outcome = Delivered | Unmatched | Rejected | Parked

definition handleRspDelivery ::
  "(table \<Rightarrow> string \<rightharpoonup> string) \<Rightarrow> rabbitTransport \<Rightarrow> delivery \<Rightarrow> rabbitTransport \<times> outcome" where
  "handleRspDelivery t2h t d =
     (if contentEncoding d = ''response'' then
        (let rsp = deliveryToMessage t2h d NewResponse;
             found = inflightReqs t (m_Id rsp);
             t = t\<lparr>inflightReqs := (inflightReqs t)(m_Id rsp := None)\<rparr>
         in case found of
              None \<Rightarrow> (t, Unmatched)
            | Some rspChan \<Rightarrow>
                if length (rspChans t rspChan) < 1
                then (t\<lparr>rspChans := (rspChans t)(rspChan := rspChans t rspChan @ [rsp])\<rparr>, Delivered)
                else (t, Parked))
      else (t, Rejected))"

text \<open>
  The hand-off of a request to the caller's channel: \<open>taken\<close> tells whether the receiver
  took the request before \<^verbatim>\<open>chanSendTimeout\<close>. Sending on a closed channel panics.
\<close>

definition handleReqDelivery ::
  "(table \<Rightarrow> string \<rightharpoonup> string) \<Rightarrow> rabbitTransport \<Rightarrow> delivery \<Rightarrow> nat \<Rightarrow> bool \<Rightarrow> rabbitTransport" where
  "handleReqDelivery t2h t d reqChan taken =
     (if contentEncoding d = ''request'' then
        (let req = deliveryToMessage t2h d NewRequest in
         if ch_closed (reqChans t reqChan) then t\<lparr>panicked := Some SendOnClosedChannel\<rparr>
         else if taken then
           t\<lparr>reqChans := (reqChans t)(reqChan :=
               (reqChans t reqChan)\<lparr>ch_sent := ch_sent (reqChans t reqChan) @ [req]\<rparr>)\<rparr>
         else t)
      else t)"

subsection \<open>Send\<close>

text \<open>
  \<^verbatim>\<open>Send\<close> suspends three times: waiting for readiness, inside \<^verbatim>\<open>Publish\<close>, and waiting
  for the response. What the world does meanwhile is the environment of a call: the result
  of \<^verbatim>\<open>uuid.NewV4\<close>, which case of the first \<^verbatim>\<open>select\<close> fires, the result of
  \<^verbatim>\<open>Publish\<close>, whether the timer has fired when the last \<^verbatim>\<open>select\<close> is decided and
  whether \<^verbatim>\<open>select\<close> picks the timer when both of its cases are ready, and what the other
  goroutines do to the transport during each suspension.
\<close>

datatype ready_event = ReadyFired | TimerFired

record send_env =
  se_uuid :: "rabbit_error + string"
  se_ready :: ready_event
  se_publish :: "rabbit_error option"
  se_timer :: bool
  se_pick_timer :: bool
  se_during_ready :: "rabbitTransport \<Rightarrow> rabbitTransport"
  se_during_publish :: "rabbitTransport \<Rightarrow> rabbitTransport"
  se_during_reply :: "rabbitTransport \<Rightarrow> rabbitTransport"

text \<open>Lines 248 to 256: the id is generated only when the request has none.\<close>

definition Send_assignId :: "message \<Rightarrow> rabbit_error + string \<Rightarrow> rabbit_error + message" where
  "Send_assignId req uuid =
     (if m_Id req = [] then
        (case uuid of Inl e \<Rightarrow> Inl e | Inr u \<Rightarrow> Inr (req\<lparr>m_Id := u\<rparr>))
      else Inr req)"

text \<open>Lines 264 to 267: a fresh channel of capacity 1 is registered under the id.\<close>

definition Send_register :: "rabbitTransport \<Rightarrow> string \<Rightarrow> rabbitTransport \<times> nat" where
  "Send_register t rspQueue =
     (let rspChan = nextChan t
      in (t\<lparr>nextChan := Suc rspChan, rspChans := (rspChans t)(rspChan := []),
            inflightReqs := (inflightReqs t)(rspQueue \<mapsto> rspChan)\<rparr>, rspChan))"

text \<open>Lines 259 to 263: the deferred function, run on every return after it is set up.\<close>

definition Send_deferred :: "rabbitTransport \<Rightarrow> string \<Rightarrow> rabbitTransport" where
  "Send_deferred t rspQueue = t\<lparr>inflightReqs := (inflightReqs t)(rspQueue := None)\<rparr>"

definition Send_headers :: "message \<Rightarrow> string \<rightharpoonup> string" where
  "Send_headers req =
     (m_Headers req)(''Content-Encoding'' \<mapsto> ''request'', ''Service'' \<mapsto> m_Service req,
        ''Endpoint'' \<mapsto> m_Endpoint req)"

text \<open>
  Lines 295 to 301: the last \<^verbatim>\<open>select\<close>. With nothing in the channel and the timer not
  fired the caller stays blocked (\<open>None\<close>).
\<close>

definition Send_awaitReply ::
  "rabbitTransport \<Rightarrow> nat \<Rightarrow> bool \<Rightarrow> bool \<Rightarrow> (rabbitTransport \<times> (rabbit_error + message)) option" where
  "Send_awaitReply t rspChan timer pick_timer =
     (case rspChans t rspChan of
        [] \<Rightarrow> if timer then Some (t, Inl ErrTimeout) else None
      | rsp # rest \<Rightarrow>
          if timer \<and> pick_timer then Some (t, Inl ErrTimeout)
          else Some (t\<lparr>rspChans := (rspChans t)(rspChan := rest)\<rparr>, Inr rsp))"

text \<open>
  The whole call. It returns the transport, the request as the caller sees it afterwards
  (\<^verbatim>\<open>SetId\<close> mutates it) and the response or the error; \<open>None\<close> when it never returns.
  \<open>Exchange\<close> is a variable of the package defined in another file, the parameter
  \<open>exchange\<close>.
\<close>

definition Send ::
  "(( string \<rightharpoonup> string) \<Rightarrow> table) \<Rightarrow> string \<Rightarrow> rabbitTransport \<Rightarrow> message \<Rightarrow> send_env
     \<Rightarrow> (rabbitTransport \<times> message \<times> (rabbit_error + message)) option" where
  "Send h2t exchange t req env =
     (case Send_assignId req (se_uuid env) of
        Inl e \<Rightarrow> Some (t, req, Inl e)
      | Inr req \<Rightarrow>
          (let rspQueue = m_Id req;
               (t, rspChan) = Send_register t rspQueue;
               headers = Send_headers req;
               t = se_during_ready env (start t)
           in case se_ready env of
                TimerFired \<Rightarrow> Some (Send_deferred t rspQueue, req, Inl ErrTimeout)
              | ReadyFired \<Rightarrow>
                  (let t = Publish t exchange (m_Service req)
                             \<lparr>p_CorrelationId = m_Id req, p_Body = m_Payload req,
                              p_ReplyTo = replyQueue t, p_Headers = h2t headers\<rparr>;
                       t = se_during_publish env t
                   in case se_publish env of
                        Some e \<Rightarrow> Some (Send_deferred t rspQueue, req, Inl e)
                      | None \<Rightarrow>
                          (case Send_awaitReply (se_during_reply env t) rspChan
                                  (se_timer env) (se_pick_timer env) of
                             None \<Rightarrow> None
                           | Some (t, r) \<Rightarrow> Some (Send_deferred t rspQueue, req, r)))))"

text \<open>
  The transport as the last \<^verbatim>\<open>select\<close> of \<^verbatim>\<open>Send\<close> finds it, for a call that
  comes that far with the request \<open>req\<close> (its id assigned), and the condition under which
  the call stays blocked there.
\<close>

definition Send_last_wait ::
  "((string \<rightharpoonup> string) \<Rightarrow> table) \<Rightarrow> string \<Rightarrow> rabbitTransport \<Rightarrow> message \<Rightarrow> send_env
     \<Rightarrow> rabbitTransport" where
  "Send_last_wait h2t exchange t req env =
     (let (t, rspChan) = Send_register t (m_Id req);
          t = se_during_ready env (start t);
          t = Publish t exchange (m_Service req)
                \<lparr>p_CorrelationId = m_Id req, p_Body = m_Payload req,
                 p_ReplyTo = replyQueue t, p_Headers = h2t (Send_headers req)\<rparr>;
          t = se_during_publish env t
      in se_during_reply env t)"

definition Send_blocked ::
  "((string \<rightharpoonup> string) \<Rightarrow> table) \<Rightarrow> string \<Rightarrow> rabbitTransport \<Rightarrow> message \<Rightarrow> send_env \<Rightarrow> bool" where
  "Send_blocked h2t exchange t req env =
     (se_ready env = ReadyFired \<and> se_publish env = None \<and> \<not> se_timer env
      \<and> rspChans (Send_last_wait h2t exchange t req env) (nextChan t) = [])"

text \<open>
  A call of \<^verbatim>\<open>Send\<close> with id \<open>i\<close> and channel \<open>c\<close> is in flight in a state
  when its channel is registered under \<open>i\<close> and nothing has been put into it yet. It is
  waiting when moreover the channel has been made and is registered under no other id. It
  is answered with \<open>rsp\<close> when the channel holds just \<open>rsp\<close>. Every channel registered
  in a transport has been made by \<^verbatim>\<open>Send\<close>: \<open>chans_allocated\<close>.
\<close>

definition in_flight :: "rabbitTransport \<Rightarrow> string \<Rightarrow> nat \<Rightarrow> bool" where
  "in_flight t i c = (inflightReqs t i = Some c \<and> rspChans t c = [])"

definition waiting :: "rabbitTransport \<Rightarrow> string \<Rightarrow> nat \<Rightarrow> bool" where
  "waiting t i c =
     (in_flight t i c \<and> c < nextChan t \<and> (\<forall>j. inflightReqs t j = Some c \<longrightarrow> j = i))"

definition answered :: "rabbitTransport \<Rightarrow> nat \<Rightarrow> message \<Rightarrow> bool" where
  "answered t c rsp = (rspChans t c = [rsp] \<and> c < nextChan t)"

definition chans_allocated :: "rabbitTransport \<Rightarrow> bool" where
  "chans_allocated t = (\<forall>i c. inflightReqs t i = Some c \<longrightarrow> c < nextChan t)"

text \<open>
  What the other goroutines do during a suspension of the call leaves it waiting, or
  leaves it answered; and the reply consumer handles the delivery \<open>d\<close> during a
  suspension, the other goroutines running before and after.
\<close>

definition undisturbed :: "string \<Rightarrow> nat \<Rightarrow> (rabbitTransport \<Rightarrow> rabbitTransport) \<Rightarrow> bool" where
  "undisturbed i c f = (\<forall>s. waiting s i c \<longrightarrow> waiting (f s) i c)"

definition keeps_reply :: "nat \<Rightarrow> message \<Rightarrow> (rabbitTransport \<Rightarrow> rabbitTransport) \<Rightarrow> bool" where
  "keeps_reply c rsp f = (\<forall>s. answered s c rsp \<longrightarrow> answered (f s) c rsp)"

definition handled_between ::
  "(table \<Rightarrow> string \<rightharpoonup> string) \<Rightarrow> delivery \<Rightarrow> (rabbitTransport \<Rightarrow> rabbitTransport)
     \<Rightarrow> (rabbitTransport \<Rightarrow> rabbitTransport) \<Rightarrow> rabbitTransport \<Rightarrow> rabbitTransport" where
  "handled_between t2h d before after s = after (fst (handleRspDelivery t2h (before s) d))"

subsection \<open>Respond\<close>

text \<open>
  A \<^verbatim>\<open>time.Duration\<close> counts nanoseconds. \<^verbatim>\<open>Respond\<close> starts a timer of
  \<^verbatim>\<open>respondTimeout\<close> and then waits in a \<^verbatim>\<open>select\<close> of three cases: readiness, the
  transport's tomb dying, and the timer. Times are measured from the start of the timer.
  The environment of a call says when the readiness channel is closed and when the tomb
  is killed (\<open>None\<close>: never), which of the ready cases \<^verbatim>\<open>select\<close> picks when more than
  one is ready, and what \<^verbatim>\<open>Publish\<close> returns. A tomb that is dying already is dying at
  time 0.
\<close>

definition Second :: nat where
  "Second = 1000000000"

definition respondTimeout :: nat where
  "respondTimeout = 10 * Second"

datatype respond_event = RespondReady | RespondDying | RespondTimeout

record respond_env =
  re_ready_at :: "nat option"
  re_dying_at :: "nat option"
  re_choice :: nat
  re_publish :: "rabbit_error option"

definition due :: "nat option \<Rightarrow> nat \<Rightarrow> bool" where
  "due at now = (case at of None \<Rightarrow> False | Some a \<Rightarrow> a \<le> now)"

definition soonest :: "nat option \<Rightarrow> nat \<Rightarrow> nat" where
  "soonest at limit = (case at of None \<Rightarrow> limit | Some a \<Rightarrow> min a limit)"

text \<open>
  Lines 227 to 236: the \<^verbatim>\<open>select\<close> wakes at the first moment at which one of its cases
  is ready and runs one of the cases ready then. It yields that case and the time waited.
\<close>

definition Respond_select :: "nat option \<Rightarrow> nat option \<Rightarrow> nat \<Rightarrow> respond_event \<times> nat" where
  "Respond_select ready_at dying_at choice =
     (let woken = soonest ready_at (soonest dying_at respondTimeout);
          ready = (if due ready_at woken then [RespondReady] else []) @
                  (if due dying_at woken then [RespondDying] else []) @
                  (if respondTimeout \<le> woken then [RespondTimeout] else [])
      in (ready ! (choice mod length ready), woken))"

text \<open>
  The whole call: the transport afterwards, the error returned (nil: \<open>None\<close>) and the
  time spent waiting in the \<^verbatim>\<open>select\<close>.
\<close>

definition Respond ::
  "((string \<rightharpoonup> string) \<Rightarrow> table) \<Rightarrow> rabbitTransport \<Rightarrow> message \<Rightarrow> message \<Rightarrow> respond_env
     \<Rightarrow> rabbitTransport \<times> rabbit_error option \<times> nat" where
  "Respond h2t t req rsp env =
     (let headers = (m_Headers rsp)(''Content-Encoding'' \<mapsto> ''response'');
          t = start t;
          (ev, waited) = Respond_select (re_ready_at env)
                           (if tb_dying (tomb t) then Some 0 else re_dying_at env) (re_choice env)
      in case ev of
           RespondReady \<Rightarrow>
             (Publish t [] (map_get (m_Headers req) ''X-Rabbit-ReplyTo'')
                \<lparr>p_CorrelationId = m_Id rsp, p_Body = m_Payload rsp, p_ReplyTo = [],
                 p_Headers = h2t headers\<rparr>,
              re_publish env, waited)
         | RespondDying \<Rightarrow> (t\<lparr>tomb := tomb_Kill (tomb t)\<rparr>, Some ErrDying, waited)
         | RespondTimeout \<Rightarrow> (t, Some ErrTimeout, waited))"

subsection \<open>Listen and StopListening\<close>

text \<open>
  Lines 168 to 176: the listener's deferred function, after which the goroutine is gone
  and its tomb does the bookkeeping. Closing a closed channel panics.
\<close>

definition listener_exit :: "rabbitTransport \<Rightarrow> string \<Rightarrow> nat \<Rightarrow> nat \<Rightarrow> rabbitTransport" where
  "listener_exit t cn rc tm =
     (let t = t\<lparr>listeners := (listeners t)(cn := None)\<rparr>
      in if ch_closed (reqChans t rc) then t\<lparr>panicked := Some CloseOfClosedChannel\<rparr>
         else t\<lparr>reqChans := (reqChans t)(rc := (reqChans t rc)\<lparr>ch_closed := True\<rparr>),
                tombs := (tombs t)(tm := tomb_done (tombs t tm))\<rparr>)"

text \<open>
  Where the listener goroutine stands: not started, gone, about to run its deferred
  function (it has handed an error to \<^verbatim>\<open>Listen\<close>), or in its delivery loop.
\<close>

datatype phase = NotStarted | Exited | Exiting | Looping

datatype first_event = FirstTombDying | FirstListenerDying | FirstTimeout | FirstReady

text \<open>
  Lines 178 to 197: the first \<^verbatim>\<open>select\<close> and \<^verbatim>\<open>Consume\<close>, up to the value that
  \<^verbatim>\<open>Listen\<close> reads from \<^verbatim>\<open>errChan\<close> (nil when the channel is closed without a send).
\<close>

definition listener_start ::
  "rabbitTransport \<Rightarrow> string \<Rightarrow> nat \<Rightarrow> nat \<Rightarrow> first_event \<Rightarrow> rabbit_error option
     \<Rightarrow> (rabbitTransport \<times> rabbit_error option \<times> phase) option" where
  "listener_start t cn rc tm ev consume_result =
     (let t = start t
      in case ev of
           FirstTombDying \<Rightarrow>
             if tb_dying (tomb t) then Some (listener_exit t cn rc tm, None, Exited) else None
         | FirstListenerDying \<Rightarrow>
             if tb_dying (tombs t tm) then Some (listener_exit t cn rc tm, None, Exited) else None
         | FirstTimeout \<Rightarrow> Some (t, Some ErrTimeout, Exiting)
         | FirstReady \<Rightarrow>
             (case consume_result of
                Some e \<Rightarrow> Some (t, Some e, Exiting)
              | None \<Rightarrow> Some (t, None, Looping)))"

datatype loop_event = LoopTombDying | LoopListenerDying | LoopClosed | LoopDelivery delivery bool

text \<open>Lines 199 to 214: the delivery loop, run on the events it meets.\<close>

fun listener_loop ::
  "(table \<Rightarrow> string \<rightharpoonup> string) \<Rightarrow> rabbitTransport \<Rightarrow> string \<Rightarrow> nat \<Rightarrow> nat \<Rightarrow> loop_event list
     \<Rightarrow> (rabbitTransport \<times> phase) option" where
  "listener_loop t2h t cn rc tm [] = Some (t, Looping)"
| "listener_loop t2h t cn rc tm (LoopTombDying # evs) =
     (if tb_dying (tomb t) then Some (listener_exit t cn rc tm, Exited) else None)"
| "listener_loop t2h t cn rc tm (LoopListenerDying # evs) =
     (if tb_dying (tombs t tm) then Some (listener_exit t cn rc tm, Exited) else None)"
| "listener_loop t2h t cn rc tm (LoopClosed # evs) = Some (listener_exit t cn rc tm, Exited)"
| "listener_loop t2h t cn rc tm (LoopDelivery d taken # evs) =
     listener_loop t2h (handleReqDelivery t2h t d rc taken) cn rc tm evs"

text \<open>
  Lines 151 to 161 and 216. The tomb made at line 153 enters the model when it is
  installed; on the refusing path nothing refers to it.
\<close>

definition Listen ::
  "rabbitTransport \<Rightarrow> string \<Rightarrow> nat \<Rightarrow> first_event \<Rightarrow> rabbit_error option
     \<Rightarrow> (rabbitTransport \<times> rabbit_error option \<times> phase) option" where
  "Listen t serviceName rc ev consume_result =
     (let cn = deliveryChan serviceName
      in case listeners t cn of
           Some _ \<Rightarrow> Some (t, Some ErrAlreadyListening, NotStarted)
         | None \<Rightarrow>
             (let tm = nextTomb t;
                  t = t\<lparr>nextTomb := Suc tm, tombs := (tombs t)(tm := new_tomb),
                        listeners := (listeners t)(cn \<mapsto> tm)\<rparr>;
                  t = t\<lparr>tombs := (tombs t)(tm := tomb_Go (tombs t tm))\<rparr>
              in listener_start t cn rc tm ev consume_result))"

text \<open>Lines 138 to 143: what \<^verbatim>\<open>StopListening\<close> does under the listener lock.\<close>

definition StopListening_kill :: "rabbitTransport \<Rightarrow> string \<Rightarrow> rabbitTransport \<times> nat option" where
  "StopListening_kill t serviceName =
     (case listeners t (deliveryChan serviceName) of
        Some tm \<Rightarrow> (t\<lparr>tombs := (tombs t)(tm := tomb_Kill (tombs t tm))\<rparr>, Some tm)
      | None \<Rightarrow> (t, None))"

text \<open>
  The whole call: \<open>others\<close> is what the other goroutines do while \<^verbatim>\<open>tm.Wait()\<close> blocks,
  and the call never returns (\<open>None\<close>) when the tomb is not dead after that.
\<close>

definition StopListening ::
  "rabbitTransport \<Rightarrow> string \<Rightarrow> (rabbitTransport \<Rightarrow> rabbitTransport) \<Rightarrow> (rabbitTransport \<times> bool) option" where
  "StopListening t serviceName others =
     (case StopListening_kill t serviceName of
        (t, Some tm) \<Rightarrow>
          (let t = others t in if tb_dead (tombs t tm) then Some (t, True) else None)
      | (t, None) \<Rightarrow> Some (t, False))"

section \<open>Properties of the dispatcher\<close>

lemma map_get_upd: "map_get (m(k \<mapsto> v)) k' = (if k' = k then v else map_get m k')"
  by (simp add: map_get_def)

text \<open>
  C8, as the code has it. When the wrapped error carries an allocated context map \<open>m\<close>,
  \<^verbatim>\<open>enrichError\<close> returns the wrapped error with nothing but its private context
  changed; in the new context the key \<^verbatim>\<open>service\<close> is the request's service exactly when
  it reads as empty in \<open>m\<close> and keeps its value otherwise, the same holds for
  \<^verbatim>\<open>endpoint\<close> and the endpoint's name, and every other key keeps its value. This holds
  for every wrapping function and every error.
\<close>

theorem enrichError_sets_unset_keys_only:
  assumes "PrivateContext (wrap e) = Some m"
  shows "\<exists>m'. enrichError wrap e ctx endpoint = Inr ((wrap e)\<lparr>PrivateContext := Some m'\<rparr>)
     \<and> m' ''service''
         = (if map_get m ''service'' = [] then Some (Service ctx) else m ''service'')
     \<and> m' ''endpoint''
         = (if map_get m ''endpoint'' = [] then Some (Name endpoint) else m ''endpoint'')
     \<and> (\<forall>k. k \<noteq> ''service'' \<and> k \<noteq> ''endpoint'' \<longrightarrow> m' k = m k)"
proof -
  let ?m1 = "if map_get m ''service'' = [] then m(''service'' \<mapsto> Service ctx) else m"
  let ?m2 = "if map_get ?m1 ''endpoint'' = [] then ?m1(''endpoint'' \<mapsto> Name endpoint) else ?m1"
  have same: "(wrap e)\<lparr>PrivateContext := Some m\<rparr> = wrap e"
    using assms by (cases "wrap e") simp
  have "enrichError wrap e ctx endpoint = Inr ((wrap e)\<lparr>PrivateContext := Some ?m2\<rparr>)"
    using assms same
    by (simp add: enrichError_def setPrivateContext_def context_get_def map_get_upd Let_def)
  moreover have "?m2 ''service''
      = (if map_get m ''service'' = [] then Some (Service ctx) else m ''service'')"
    by simp
  moreover have "?m2 ''endpoint''
      = (if map_get m ''endpoint'' = [] then Some (Name endpoint) else m ''endpoint'')"
    by (simp add: map_get_upd)
  moreover have "\<forall>k. k \<noteq> ''service'' \<and> k \<noteq> ''endpoint'' \<longrightarrow> ?m2 k = m k"
    by simp
  ultimately show ?thesis
    by blast
qed

text \<open>
  An error raised by the service \<^verbatim>\<open>accounts\<close> and passing through the endpoint
  \<^verbatim>\<open>login\<close> of the service \<^verbatim>\<open>gateway\<close> keeps its service and gains the endpoint.
\<close>

theorem enrichError_sets_unset_keys_only_witness:
  "\<exists>m'. enrichError (Wrap ''unknown'')
     (Canonical \<lparr>Code = ''not_found'', Message = ''no such user'',
        PrivateContext = Some [''service'' \<mapsto> ''accounts'']\<rparr>)
     \<lparr>Service = ''gateway'', Payload = [], Body = (None :: unit option)\<rparr>
     \<lparr>Name = ''login'', Handler = (\<lambda>_. (None :: unit option, None)),
      RequestProto = (None :: unit option), ResponseProto = None\<rparr>
   = Inr \<lparr>Code = ''not_found'', Message = ''no such user'', PrivateContext = Some m'\<rparr>
   \<and> m' ''service'' = Some ''accounts'' \<and> m' ''endpoint'' = Some ''login''"
  using enrichError_sets_unset_keys_only [where wrap = "Wrap ''unknown''"
      and e = "Canonical \<lparr>Code = ''not_found'', Message = ''no such user'',
        PrivateContext = Some [''service'' \<mapsto> ''accounts'']\<rparr>"
      and m = "[''service'' \<mapsto> ''accounts'']"
      and ctx = "\<lparr>Service = ''gateway'', Payload = [], Body = (None :: unit option)\<rparr>"
      and endpoint = "\<lparr>Name = ''login'', Handler = (\<lambda>_. (None :: unit option, None)),
      RequestProto = (None :: unit option), ResponseProto = None\<rparr>"]
  by (simp add: map_get_def) (elim exE conjE, intro exI conjI, assumption+)

text \<open>
  On a wrapped error whose context map is nil both keys read as empty, and the assignment
  at line 71 panics.
\<close>

lemma enrichError_nil_context:
  "PrivateContext (wrap e) = None \<Longrightarrow> enrichError wrap e ctx endpoint = Inl AssignToNilMap"
  by (simp add: enrichError_def setPrivateContext_def context_get_def Let_def)

text \<open>
  A handler error of the canonical type built without a context map: \<^verbatim>\<open>enrichError\<close>
  sets no key, it panics.
\<close>

theorem enrichError_nil_context_panics:
  "enrichError (Wrap ''unknown'')
     (Canonical \<lparr>Code = ''not_found'', Message = ''no such user'', PrivateContext = None\<rparr>)
     \<lparr>Service = ''gateway'', Payload = [], Body = (None :: unit option)\<rparr>
     \<lparr>Name = ''login'', Handler = (\<lambda>_. (None :: unit option, None)),
      RequestProto = (None :: unit option), ResponseProto = None\<rparr>
   = Inl AssignToNilMap"
  by (simp add: enrichError_def setPrivateContext_def context_get_def)

text \<open>
  With the wrapping of the errors package, a canonical error that already names its
  service and endpoint comes back as it went in.
\<close>

lemma enrichError_keeps_deeper_context:
  "context_get (PrivateContext x) ''service'' \<noteq> [] \<Longrightarrow>
   context_get (PrivateContext x) ''endpoint'' \<noteq> [] \<Longrightarrow>
   enrichError (Wrap dflt) (Canonical x) ctx endpoint = Inr x"
  by (simp add: enrichError_def Let_def)

text \<open>
  C4, as the code has it. When the endpoint has a request prototype and the payload fails
  to decode, \<^verbatim>\<open>HandleRequest\<close> does not invoke the handler, leaves the request as it
  was, and returns no response and the wrapping of the plain error
  \<^verbatim>\<open>Could not unmarshal request\<close>, as \<^verbatim>\<open>errors.Wrap\<close> returns it.
\<close>

theorem HandleRequest_decode_failure:
  assumes "RequestProto e = Some proto" and "unmarshal proto (Payload req) = Inl x"
  shows "HandleRequest wrap unmarshal e req
     = \<lparr>decoded = True, invoked = [], request = req, response = None,
        err = Some (Canonical (wrap (Errorf ''Could not unmarshal request''))), panic = None\<rparr>"
  using assms by (simp add: HandleRequest_def)

theorem HandleRequest_decode_failure_witness:
  "HandleRequest (Wrap ''unknown'')
      (\<lambda>(_::unit) p. if p = [] then Inr () else Inl (Errorf ''unexpected EOF''))
      \<lparr>Name = ''login'', Handler = (\<lambda>_. (Some (1::nat), None)), RequestProto = Some (),
       ResponseProto = None\<rparr>
      \<lparr>Service = ''gateway'', Payload = [255], Body = None\<rparr>
   = \<lparr>decoded = True, invoked = [],
      request = \<lparr>Service = ''gateway'', Payload = [255], Body = None\<rparr>,
      response = None,
      err = Some (Canonical (Wrap ''unknown'' (Errorf ''Could not unmarshal request''))),
      panic = None\<rparr>"
  by (rule HandleRequest_decode_failure [where proto = "()" and x = "Errorf ''unexpected EOF''"])
    simp_all

text \<open>
  The error of a decoding failure is returned before \<^verbatim>\<open>enrichError\<close> is reached: for
  the service \<^verbatim>\<open>gateway\<close> and the endpoint \<^verbatim>\<open>login\<close> its private context names
  neither.
\<close>

theorem HandleRequest_decode_failure_not_enriched:
  "err (HandleRequest (Wrap ''unknown'')
      (\<lambda>(_::unit) p. if p = [] then Inr () else Inl (Errorf ''unexpected EOF''))
      \<lparr>Name = ''login'', Handler = (\<lambda>_. (Some (1::nat), None)), RequestProto = Some (),
       ResponseProto = None\<rparr>
      \<lparr>Service = ''gateway'', Payload = [255], Body = None\<rparr>)
   = Some (Canonical \<lparr>Code = ''unknown'', Message = ''Could not unmarshal request'',
       PrivateContext = Some Map.empty\<rparr>)"
  by (simp add: HandleRequest_def)

text \<open>
  Whatever the wrapping function is, that error is the same for every service and every
  endpoint, so it cannot name them.
\<close>

lemma HandleRequest_decode_failure_same_error:
  assumes "RequestProto e = Some proto" and "RequestProto e' = Some proto'"
    and "unmarshal proto (Payload req) = Inl x" and "unmarshal proto' (Payload req') = Inl x'"
  shows "err (HandleRequest wrap unmarshal e req) = err (HandleRequest wrap unmarshal e' req')"
  using assms by (simp add: HandleRequest_def)

text \<open>
  C10. When the endpoint's request prototype is nil, \<^verbatim>\<open>HandleRequest\<close> does not hand
  the payload to the decoder, invokes the handler once, on the request as it came, and
  leaves the request (and so its body) as it was. It returns what the handler returns,
  its error enriched, or panics where \<^verbatim>\<open>enrichError\<close> panics; the result does not
  depend on the decoder.
\<close>

theorem HandleRequest_nil_prototype:
  assumes "RequestProto e = None"
  shows "\<not> decoded (HandleRequest wrap unmarshal e req)
     \<and> invoked (HandleRequest wrap unmarshal e req) = [req]
     \<and> request (HandleRequest wrap unmarshal e req) = req
     \<and> (case snd (Handler e req) of
          None \<Rightarrow>
            response (HandleRequest wrap unmarshal e req) = fst (Handler e req)
            \<and> err (HandleRequest wrap unmarshal e req) = None
            \<and> panic (HandleRequest wrap unmarshal e req) = None
        | Some er \<Rightarrow>
            (case enrichError wrap er req e of
               Inr enriched \<Rightarrow>
                 response (HandleRequest wrap unmarshal e req) = fst (Handler e req)
                 \<and> err (HandleRequest wrap unmarshal e req) = Some (Canonical enriched)
                 \<and> panic (HandleRequest wrap unmarshal e req) = None
             | Inl p \<Rightarrow>
                 response (HandleRequest wrap unmarshal e req) = None
                 \<and> err (HandleRequest wrap unmarshal e req) = None
                 \<and> panic (HandleRequest wrap unmarshal e req) = Some p))
     \<and> HandleRequest wrap unmarshal e req = HandleRequest wrap unmarshal' e req"
  using assms
  by (simp add: HandleRequest_def invokeHandler_def split: prod.splits option.splits sum.splits)

theorem HandleRequest_nil_prototype_witness:
  "invoked (HandleRequest (Wrap ''unknown'') (\<lambda>(_::unit) p. Inl (Errorf ''unexpected EOF''))
      \<lparr>Name = ''ping'', Handler = (\<lambda>_. (Some (1::nat), None)), RequestProto = None,
       ResponseProto = None\<rparr>
      \<lparr>Service = ''gateway'', Payload = [255], Body = (None :: unit option)\<rparr>)
   = [\<lparr>Service = ''gateway'', Payload = [255], Body = None\<rparr>]
  \<and> Body (request (HandleRequest (Wrap ''unknown'') (\<lambda>(_::unit) p. Inl (Errorf ''unexpected EOF''))
      \<lparr>Name = ''ping'', Handler = (\<lambda>_. (Some (1::nat), None)), RequestProto = None,
       ResponseProto = None\<rparr>
      \<lparr>Service = ''gateway'', Payload = [255], Body = (None :: unit option)\<rparr>)) = None
  \<and> response (HandleRequest (Wrap ''unknown'') (\<lambda>(_::unit) p. Inl (Errorf ''unexpected EOF''))
      \<lparr>Name = ''ping'', Handler = (\<lambda>_. (Some (1::nat), None)), RequestProto = None,
       ResponseProto = None\<rparr>
      \<lparr>Service = ''gateway'', Payload = [255], Body = (None :: unit option)\<rparr>) = Some 1"
  using HandleRequest_nil_prototype [of
      "\<lparr>Name = ''ping'', Handler = (\<lambda>_. (Some (1::nat), None)), RequestProto = None,
        ResponseProto = None\<rparr>"
      "Wrap ''unknown''" "(\<lambda>(_::unit) p. Inl (Errorf ''unexpected EOF''))"
      "\<lparr>Service = ''gateway'', Payload = [255], Body = (None :: unit option)\<rparr>"]
  by simp

section \<open>Properties of the transport\<close>

subsection \<open>Reply deliveries\<close>

lemma contentEncoding_response:
  "contentEncoding d = ''response'' \<longleftrightarrow> d_Headers d ''Content-Encoding'' = Some (FString ''response'')"
  by (auto simp: contentEncoding_def split: option.splits field.splits)

text \<open>
  C6. A delivery on the reply queue whose \<^verbatim>\<open>Content-Encoding\<close> header is not the string
  \<^verbatim>\<open>response\<close> (another string, a value that is no string, or no header at all) is
  refused and the transport is left exactly as it was: \<^verbatim>\<open>inflightReqs\<close> is unchanged
  and no channel receives a value.
\<close>

theorem handleRspDelivery_drops_other_encodings:
  assumes "d_Headers d ''Content-Encoding'' \<noteq> Some (FString ''response'')"
  shows "handleRspDelivery t2h t d = (t, Rejected)"
  using assms by (simp add: handleRspDelivery_def contentEncoding_response)

text \<open>
  The encoding is compared by case: \<^verbatim>\<open>Response\<close> is refused although a caller waits
  under the delivery's correlation id.
\<close>

theorem handleRspDelivery_drops_other_encodings_witness:
  "handleRspDelivery (\<lambda>tbl k. case tbl k of Some (FString v) \<Rightarrow> Some v | _ \<Rightarrow> None)
     (fst (Send_register NewTransport ''req-1''))
     \<lparr>d_CorrelationId = ''req-1'', d_ReplyTo = [], d_RoutingKey = ''amq.rabbitmq.reply-to'',
      d_Headers = [''Content-Encoding'' \<mapsto> FString ''Response''], d_Body = [112, 111, 110, 103]\<rparr>
   = (fst (Send_register NewTransport ''req-1''), Rejected)"
  by (rule handleRspDelivery_drops_other_encodings) simp

lemma deliveryToMessage_response:
  "m_Id (deliveryToMessage t2h d NewResponse) = d_CorrelationId d"
  "m_Payload (deliveryToMessage t2h d NewResponse) = d_Body d"
  "m_kind (deliveryToMessage t2h d NewResponse) = IsResponse"
  by (simp_all add: deliveryToMessage_def NewResponse_def Let_def)

lemma handleRspDelivery_in_flight:
  assumes "in_flight t i c" and "d_CorrelationId d = i"
    and "d_Headers d ''Content-Encoding'' = Some (FString ''response'')"
  shows "rspChans (fst (handleRspDelivery t2h t d)) c = [deliveryToMessage t2h d NewResponse]"
    and "snd (handleRspDelivery t2h t d) = Delivered"
    and "inflightReqs (fst (handleRspDelivery t2h t d)) i = None"
  using assms
  by (simp_all add: handleRspDelivery_def contentEncoding_response in_flight_def Let_def
        deliveryToMessage_response)

subsection \<open>Send\<close>

lemma Send_assignId_cases:
  assumes "m_Id req = i \<and> i \<noteq> [] \<or> m_Id req = [] \<and> uuid = Inr i"
  shows "Send_assignId req uuid = Inr (req\<lparr>m_Id := i\<rparr>)"
  using assms by (auto simp: Send_assignId_def)

text \<open>
  What \<^verbatim>\<open>Send\<close> hands back once the id is assigned, path by path, and when it stays
  blocked.
\<close>

lemma Send_outcome:
  assumes "Send_assignId req (se_uuid env) = Inr req1"
  shows "map_option (\<lambda>(t', rq, r). (rq, r)) (Send h2t exchange t req env) =
     (case se_ready env of
        TimerFired \<Rightarrow> Some (req1, Inl ErrTimeout)
      | ReadyFired \<Rightarrow>
          (case se_publish env of
             Some e \<Rightarrow> Some (req1, Inl e)
           | None \<Rightarrow>
               map_option (\<lambda>(t', r). (req1, r))
                 (Send_awaitReply (Send_last_wait h2t exchange t req1 env) (nextChan t)
                    (se_timer env) (se_pick_timer env))))"
  using assms
  by (simp add: Send_def Send_last_wait_def Send_register_def Let_def split_beta
        split: ready_event.splits option.splits)

lemma Send_awaitReply_blocks:
  "Send_awaitReply t c timer pick = None \<longleftrightarrow> rspChans t c = [] \<and> \<not> timer"
  by (simp add: Send_awaitReply_def split: list.splits)

lemma Send_returns_unless_blocked:
  assumes "Send_assignId req (se_uuid env) = Inr req1"
  shows "if Send_blocked h2t exchange t req1 env then Send h2t exchange t req env = None
         else \<exists>t' r. Send h2t exchange t req env = Some (t', req1, r)"
proof -
  note o = Send_outcome [OF assms, of h2t exchange t]
  show ?thesis
  proof (cases "Send_blocked h2t exchange t req1 env")
    case True
    then have "Send_awaitReply (Send_last_wait h2t exchange t req1 env) (nextChan t)
                 (se_timer env) (se_pick_timer env) = None"
      by (simp add: Send_blocked_def Send_awaitReply_blocks)
    then show ?thesis
      using o True by (simp add: Send_blocked_def)
  next
    case False
    then have "se_ready env = TimerFired \<or> se_publish env \<noteq> None
        \<or> Send_awaitReply (Send_last_wait h2t exchange t req1 env) (nextChan t)
             (se_timer env) (se_pick_timer env) \<noteq> None"
      by (cases "se_ready env") (auto simp: Send_blocked_def Send_awaitReply_blocks)
    then have "map_option (\<lambda>(t', rq, r). (rq, r)) (Send h2t exchange t req env) \<noteq> None
        \<and> (\<forall>x. map_option (\<lambda>(t', rq, r). (rq, r)) (Send h2t exchange t req env) = Some x
              \<longrightarrow> fst x = req1)"
      unfolding o by (auto split: ready_event.splits option.splits)
    then show ?thesis
      using False by (cases "Send h2t exchange t req env") auto
  qed
qed

subsubsection \<open>What the other goroutines do to a call in flight\<close>

text \<open>
  The steps of the other goroutines leave a call with id \<open>i\<close> and channel \<open>c\<close>
  waiting, and leave its reply in its channel: the handling of a delivery for another
  id, the steps of the calls of \<^verbatim>\<open>Send\<close> with other ids and other channels,
  \<^verbatim>\<open>Publish\<close> and the start of the supervisor. Once the reply is in the channel, no
  delivery and no registration disturbs it. The channels registered in a transport have
  all been made, from the new transport on.
\<close>

lemma undisturbed_id: "undisturbed i c id"
  by (simp add: undisturbed_def)

lemma keeps_reply_id: "keeps_reply c rsp id"
  by (simp add: keeps_reply_def)

lemma undisturbed_comp: "undisturbed i c f \<Longrightarrow> undisturbed i c g \<Longrightarrow> undisturbed i c (f \<circ> g)"
  by (simp add: undisturbed_def)

lemma keeps_reply_comp: "keeps_reply c rsp f \<Longrightarrow> keeps_reply c rsp g \<Longrightarrow> keeps_reply c rsp (f \<circ> g)"
  by (simp add: keeps_reply_def)

lemma start_waiting: "waiting (start t) i c = waiting t i c"
  by (simp add: start_def waiting_def in_flight_def)

lemma start_answered: "answered (start t) c rsp = answered t c rsp"
  by (simp add: start_def answered_def)

lemma Publish_waiting: "waiting (Publish t ex k p) i c = waiting t i c"
  by (simp add: Publish_def start_def waiting_def in_flight_def)

lemma Publish_answered: "answered (Publish t ex k p) c rsp = answered t c rsp"
  by (simp add: Publish_def start_def answered_def)

lemma start_undisturbed: "undisturbed i c start" and start_keeps_reply: "keeps_reply c rsp start"
  by (simp_all add: undisturbed_def keeps_reply_def start_waiting start_answered)

lemma Publish_undisturbed: "undisturbed i c (\<lambda>s. Publish s ex k p)"
  and Publish_keeps_reply: "keeps_reply c rsp (\<lambda>s. Publish s ex k p)"
  by (simp_all add: undisturbed_def keeps_reply_def Publish_waiting Publish_answered)

lemma other_delivery_undisturbed:
  assumes "\<not> (contentEncoding d' = ''response'' \<and> d_CorrelationId d' = i)"
  shows "undisturbed i c (\<lambda>s. fst (handleRspDelivery t2h s d'))"
  using assms
  by (auto simp: undisturbed_def handleRspDelivery_def waiting_def in_flight_def Let_def
        deliveryToMessage_response split: option.splits)

lemma any_delivery_keeps_reply: "keeps_reply c rsp (\<lambda>s. fst (handleRspDelivery t2h s d'))"
  by (auto simp: keeps_reply_def handleRspDelivery_def answered_def Let_def split: option.splits)

lemma other_register_undisturbed:
  "j \<noteq> i \<Longrightarrow> undisturbed i c (\<lambda>s. fst (Send_register s j))"
  by (auto simp: undisturbed_def Send_register_def waiting_def in_flight_def Let_def)

lemma any_register_keeps_reply: "keeps_reply c rsp (\<lambda>s. fst (Send_register s j))"
  by (auto simp: keeps_reply_def Send_register_def answered_def Let_def)

lemma other_deferred_undisturbed:
  "j \<noteq> i \<Longrightarrow> undisturbed i c (\<lambda>s. Send_deferred s j)"
  by (auto simp: undisturbed_def Send_deferred_def waiting_def in_flight_def)

lemma any_deferred_keeps_reply: "keeps_reply c rsp (\<lambda>s. Send_deferred s j)"
  by (auto simp: keeps_reply_def Send_deferred_def answered_def)

lemma other_receive_undisturbed:
  "c' \<noteq> c \<Longrightarrow> undisturbed i c
     (\<lambda>s. case Send_awaitReply s c' timer pick of None \<Rightarrow> s | Some (s', r) \<Rightarrow> s')"
  by (auto simp: undisturbed_def Send_awaitReply_def waiting_def in_flight_def
        split: list.splits)

lemma other_receive_keeps_reply:
  "c' \<noteq> c \<Longrightarrow> keeps_reply c rsp
     (\<lambda>s. case Send_awaitReply s c' timer pick of None \<Rightarrow> s | Some (s', r) \<Rightarrow> s')"
  by (auto simp: keeps_reply_def Send_awaitReply_def answered_def split: list.splits)

lemma NewTransport_chans_allocated: "chans_allocated NewTransport"
  by (simp add: chans_allocated_def NewTransport_def)

lemma Send_register_chans_allocated:
  "chans_allocated t \<Longrightarrow> chans_allocated (fst (Send_register t i))"
  by (auto simp: chans_allocated_def Send_register_def Let_def less_Suc_eq)

lemma Send_deferred_chans_allocated:
  "chans_allocated t \<Longrightarrow> chans_allocated (Send_deferred t i)"
  by (auto simp: chans_allocated_def Send_deferred_def)

lemma handleRspDelivery_chans_allocated:
  "chans_allocated t \<Longrightarrow> chans_allocated (fst (handleRspDelivery t2h t d))"
  by (auto simp: chans_allocated_def handleRspDelivery_def Let_def split: option.splits if_splits)

lemma start_chans_allocated: "chans_allocated (start t) = chans_allocated t"
  by (simp add: chans_allocated_def start_def)

lemma Publish_chans_allocated: "chans_allocated (Publish t ex k p) = chans_allocated t"
  by (simp add: chans_allocated_def Publish_def start_def)

lemma Send_awaitReply_chans_allocated:
  "Send_awaitReply t c timer pick = Some (t', r) \<Longrightarrow> chans_allocated t \<Longrightarrow> chans_allocated t'"
  by (auto simp: Send_awaitReply_def chans_allocated_def split: list.splits if_splits)

lemma Send_keeps_chans_allocated:
  assumes inv: "chans_allocated t"
    and o1: "\<And>s. chans_allocated s \<Longrightarrow> chans_allocated (se_during_ready env s)"
    and o2: "\<And>s. chans_allocated s \<Longrightarrow> chans_allocated (se_during_publish env s)"
    and o3: "\<And>s. chans_allocated s \<Longrightarrow> chans_allocated (se_during_reply env s)"
    and ret: "Send h2t exchange t req env = Some (t', req', r)"
  shows "chans_allocated t'"
proof (cases "Send_assignId req (se_uuid env)")
  case (Inl e)
  then show ?thesis using ret inv by (simp add: Send_def)
next
  case (Inr req1)
  let ?t1 = "fst (Send_register t (m_Id req1))"
  let ?t2 = "se_during_ready env (start ?t1)"
  let ?t3 = "se_during_publish env (Publish ?t2 exchange (m_Service req1)
               \<lparr>p_CorrelationId = m_Id req1, p_Body = m_Payload req1,
                p_ReplyTo = replyQueue ?t2, p_Headers = h2t (Send_headers req1)\<rparr>)"
  have 2: "chans_allocated ?t2"
    using inv by (intro o1) (simp add: start_chans_allocated Send_register_chans_allocated)
  then have 3: "chans_allocated ?t3"
    by (intro o2) (simp add: Publish_chans_allocated)
  then have 4: "chans_allocated (se_during_reply env ?t3)"
    by (rule o3)
  show ?thesis
  proof (cases "se_ready env")
    case TimerFired
    then show ?thesis
      using ret Inr 2 by (auto simp: Send_def Let_def split_beta intro: Send_deferred_chans_allocated)
  next
    case ReadyFired
    show ?thesis
    proof (cases "se_publish env")
      case (Some e)
      then show ?thesis
        using ret Inr ReadyFired 3
        by (auto simp: Send_def Let_def split_beta intro: Send_deferred_chans_allocated)
    next
      case None
      then obtain t4 where w: "Send_awaitReply (se_during_reply env ?t3) (snd (Send_register t (m_Id req1)))
                                 (se_timer env) (se_pick_timer env) = Some (t4, r)"
        and t': "t' = Send_deferred t4 (m_Id req1)"
        using ret Inr ReadyFired
        by (auto simp: Send_def Let_def split_beta split: option.splits)
      have "chans_allocated t4"
        using w 4 by (rule Send_awaitReply_chans_allocated)
      then show ?thesis
        unfolding t' by (rule Send_deferred_chans_allocated)
    qed
  qed
qed

lemma Send_register_waiting:
  assumes "chans_allocated t"
  shows "waiting (fst (Send_register t i)) i (nextChan t)"
  using assms
  by (auto simp: Send_register_def waiting_def in_flight_def chans_allocated_def Let_def)

lemma handleRspDelivery_answers:
  assumes "waiting t i c" and "d_CorrelationId d = i"
    and "d_Headers d ''Content-Encoding'' = Some (FString ''response'')"
  shows "answered (fst (handleRspDelivery t2h t d)) c (deliveryToMessage t2h d NewResponse)"
  using assms
  by (simp add: handleRspDelivery_def contentEncoding_response waiting_def in_flight_def
        answered_def Let_def deliveryToMessage_response)

lemma handled_between_answers:
  assumes "waiting s i c" and "undisturbed i c before"
    and "keeps_reply c (deliveryToMessage t2h d NewResponse) after"
    and "d_CorrelationId d = i"
    and "d_Headers d ''Content-Encoding'' = Some (FString ''response'')"
  shows "answered (handled_between t2h d before after s) c (deliveryToMessage t2h d NewResponse)"
proof -
  have "waiting (before s) i c"
    using assms(1,2) by (simp add: undisturbed_def)
  then have "answered (fst (handleRspDelivery t2h (before s) d)) c (deliveryToMessage t2h d NewResponse)"
    using assms(4,5) by (rule handleRspDelivery_answers)
  then show ?thesis
    using assms(3) by (simp add: keeps_reply_def handled_between_def)
qed

subsubsection \<open>The reply\<close>

text \<open>
  C1, as the code has it. Let \<open>i\<close> be the id of the request, its own or the generated
  one. Suppose the reply consumer handles a delivery with correlation id \<open>i\<close>,
  \<^verbatim>\<open>Content-Encoding\<close> \<^verbatim>\<open>response\<close> and body \<open>b\<close> during one of the three
  suspensions of the call (the wait for readiness, \<^verbatim>\<open>Publish\<close>, the wait for the
  reply), that what the other goroutines do before it leaves the call waiting, and that
  what they do after it leaves the reply in the call's channel. Then \<^verbatim>\<open>Send\<close> returns,
  with the request under the id \<open>i\<close>, and it returns \<^verbatim>\<open>ErrTimeout\<close> if its timer fires
  in the wait for readiness, else the error of \<^verbatim>\<open>Publish\<close> if there is one, else
  \<^verbatim>\<open>ErrTimeout\<close> if the timer has fired and the last \<^verbatim>\<open>select\<close> picks it, and else
  the response made from the delivery, whose id is \<open>i\<close> and whose payload is \<open>b\<close>.
\<close>

theorem Send_returns_matching_reply:
  assumes alloc: "chans_allocated t"
    and idI: "m_Id req = i \<and> i \<noteq> [] \<or> m_Id req = [] \<and> se_uuid env = Inr i"
    and corr: "d_CorrelationId d = i"
    and enc: "d_Headers d ''Content-Encoding'' = Some (FString ''response'')"
    and body: "d_Body d = b"
    and before: "undisturbed i (nextChan t) before"
    and after: "keeps_reply (nextChan t) (deliveryToMessage t2h d NewResponse) after"
    and sched:
      "se_during_ready env = handled_between t2h d before after
         \<and> keeps_reply (nextChan t) (deliveryToMessage t2h d NewResponse) (se_during_publish env)
         \<and> keeps_reply (nextChan t) (deliveryToMessage t2h d NewResponse) (se_during_reply env)
       \<or> undisturbed i (nextChan t) (se_during_ready env)
         \<and> se_during_publish env = handled_between t2h d before after
         \<and> keeps_reply (nextChan t) (deliveryToMessage t2h d NewResponse) (se_during_reply env)
       \<or> undisturbed i (nextChan t) (se_during_ready env)
         \<and> undisturbed i (nextChan t) (se_during_publish env)
         \<and> se_during_reply env = handled_between t2h d before after"
  shows "(\<exists>t'. Send h2t exchange t req env =
            Some (t', req\<lparr>m_Id := i\<rparr>,
              if se_ready env = TimerFired then Inl ErrTimeout
              else case se_publish env of
                     Some e \<Rightarrow> Inl e
                   | None \<Rightarrow>
                       if se_timer env \<and> se_pick_timer env then Inl ErrTimeout
                       else Inr (deliveryToMessage t2h d NewResponse)))
         \<and> m_Id (deliveryToMessage t2h d NewResponse) = i
         \<and> m_Payload (deliveryToMessage t2h d NewResponse) = b"
proof -
  let ?req = "req\<lparr>m_Id := i\<rparr>"
  let ?c = "nextChan t"
  let ?rsp = "deliveryToMessage t2h d NewResponse"
  let ?t1 = "start (fst (Send_register t i))"
  let ?pub = "\<lambda>s. Publish s exchange (m_Service ?req)
               \<lparr>p_CorrelationId = i, p_Body = m_Payload ?req,
                p_ReplyTo = replyQueue s, p_Headers = h2t (Send_headers ?req)\<rparr>"
  let ?g1 = "se_during_ready env" and ?g2 = "se_during_publish env" and ?g3 = "se_during_reply env"
  have a: "Send_assignId req (se_uuid env) = Inr ?req"
    using idI by (rule Send_assignId_cases)
  have last: "Send_last_wait h2t exchange t ?req env = ?g3 (?g2 (?pub (?g1 ?t1)))"
    by (simp add: Send_last_wait_def Let_def split_beta)
  have w1: "waiting ?t1 i ?c"
    using alloc by (simp add: start_waiting Send_register_waiting)
  note hb = handled_between_answers [OF _ before after corr enc]
  have ans: "answered (?g3 (?g2 (?pub (?g1 ?t1)))) ?c ?rsp"
    using sched
  proof (elim disjE conjE)
    assume g: "?g1 = handled_between t2h d before after"
      and k2: "keeps_reply ?c ?rsp ?g2" and k3: "keeps_reply ?c ?rsp ?g3"
    have "answered (?g1 ?t1) ?c ?rsp"
      unfolding g using w1 by (rule hb)
    then have "answered (?pub (?g1 ?t1)) ?c ?rsp"
      by (simp add: Publish_answered)
    then show ?thesis
      using k2 k3 by (simp add: keeps_reply_def)
  next
    assume u1: "undisturbed i ?c ?g1"
      and g: "?g2 = handled_between t2h d before after" and k3: "keeps_reply ?c ?rsp ?g3"
    have "waiting (?pub (?g1 ?t1)) i ?c"
      using w1 u1 by (simp add: undisturbed_def Publish_waiting)
    then have "answered (?g2 (?pub (?g1 ?t1))) ?c ?rsp"
      unfolding g by (rule hb)
    then show ?thesis
      using k3 by (simp add: keeps_reply_def)
  next
    assume u1: "undisturbed i ?c ?g1" and u2: "undisturbed i ?c ?g2"
      and g: "?g3 = handled_between t2h d before after"
    have "waiting (?g2 (?pub (?g1 ?t1))) i ?c"
      using w1 u1 u2 by (simp add: undisturbed_def Publish_waiting)
    then show ?thesis
      unfolding g by (rule hb)
  qed
  then have ch: "rspChans (Send_last_wait h2t exchange t ?req env) ?c = [?rsp]"
    by (simp add: last answered_def)
  have w: "Send_awaitReply (Send_last_wait h2t exchange t ?req env) ?c (se_timer env) (se_pick_timer env)
             = Some (if se_timer env \<and> se_pick_timer env
                     then (Send_last_wait h2t exchange t ?req env, Inl ErrTimeout)
                     else ((Send_last_wait h2t exchange t ?req env)
                             \<lparr>rspChans := (rspChans (Send_last_wait h2t exchange t ?req env))(?c := [])\<rparr>,
                           Inr ?rsp))"
    using ch by (simp add: Send_awaitReply_def)
  have "map_option (\<lambda>(t', rq, r). (rq, r)) (Send h2t exchange t req env) =
          Some (?req, if se_ready env = TimerFired then Inl ErrTimeout
                      else case se_publish env of
                             Some e \<Rightarrow> Inl e
                           | None \<Rightarrow> if se_timer env \<and> se_pick_timer env then Inl ErrTimeout
                                       else Inr ?rsp)"
    unfolding Send_outcome [OF a] w
    by (simp split: ready_event.splits option.splits)
  then have "\<exists>t'. Send h2t exchange t req env =
          Some (t', ?req, if se_ready env = TimerFired then Inl ErrTimeout
                      else case se_publish env of
                             Some e \<Rightarrow> Inl e
                           | None \<Rightarrow> if se_timer env \<and> se_pick_timer env then Inl ErrTimeout
                                       else Inr ?rsp)"
    by (cases "Send h2t exchange t req env") auto
  then show ?thesis
    using corr body by (simp add: deliveryToMessage_response)
qed

text \<open>
  On a new transport the reply to the request \<^verbatim>\<open>req-1\<close> arrives while \<^verbatim>\<open>Publish\<close>
  has not returned yet; the timer has fired, \<^verbatim>\<open>select\<close> picks the channel, and
  \<^verbatim>\<open>Send\<close> returns the response with body \<^verbatim>\<open>pong\<close>.
\<close>

theorem Send_returns_matching_reply_witness:
  "(\<exists>t'. Send (\<lambda>h k. map_option FString (h k)) ''typhon'' NewTransport
       \<lparr>m_kind = IsRequest, m_Id = ''req-1'', m_Service = ''accounts'', m_Endpoint = ''login'',
        m_Headers = Map.empty, m_Payload = [112, 105, 110, 103]\<rparr>
       \<lparr>se_uuid = Inl (ErrOther ''no entropy''), se_ready = ReadyFired, se_publish = None,
        se_timer = True, se_pick_timer = False, se_during_ready = id,
        se_during_publish = handled_between
           (\<lambda>tbl k. case tbl k of Some (FString v) \<Rightarrow> Some v | _ \<Rightarrow> None)
           \<lparr>d_CorrelationId = ''req-1'', d_ReplyTo = [], d_RoutingKey = ''amq.rabbitmq.reply-to'',
            d_Headers = [''Content-Encoding'' \<mapsto> FString ''response''],
            d_Body = [112, 111, 110, 103]\<rparr> id id,
        se_during_reply = id\<rparr>
     = Some (t',
         \<lparr>m_kind = IsRequest, m_Id = ''req-1'', m_Service = ''accounts'', m_Endpoint = ''login'',
          m_Headers = Map.empty, m_Payload = [112, 105, 110, 103]\<rparr>,
         Inr (deliveryToMessage (\<lambda>tbl k. case tbl k of Some (FString v) \<Rightarrow> Some v | _ \<Rightarrow> None)
           \<lparr>d_CorrelationId = ''req-1'', d_ReplyTo = [], d_RoutingKey = ''amq.rabbitmq.reply-to'',
            d_Headers = [''Content-Encoding'' \<mapsto> FString ''response''],
            d_Body = [112, 111, 110, 103]\<rparr> NewResponse)))
   \<and> m_Id (deliveryToMessage (\<lambda>tbl k. case tbl k of Some (FString v) \<Rightarrow> Some v | _ \<Rightarrow> None)
           \<lparr>d_CorrelationId = ''req-1'', d_ReplyTo = [], d_RoutingKey = ''amq.rabbitmq.reply-to'',
            d_Headers = [''Content-Encoding'' \<mapsto> FString ''response''],
            d_Body = [112, 111, 110, 103]\<rparr> NewResponse) = ''req-1''
   \<and> m_Payload (deliveryToMessage (\<lambda>tbl k. case tbl k of Some (FString v) \<Rightarrow> Some v | _ \<Rightarrow> None)
           \<lparr>d_CorrelationId = ''req-1'', d_ReplyTo = [], d_RoutingKey = ''amq.rabbitmq.reply-to'',
            d_Headers = [''Content-Encoding'' \<mapsto> FString ''response''],
            d_Body = [112, 111, 110, 103]\<rparr> NewResponse) = [112, 111, 110, 103]"
proof -
  let ?t2h = "\<lambda>(tbl :: table) k. case tbl k of Some (FString v) \<Rightarrow> Some v | _ \<Rightarrow> None"
  let ?d = "\<lparr>d_CorrelationId = ''req-1'', d_ReplyTo = [], d_RoutingKey = ''amq.rabbitmq.reply-to'',
            d_Headers = [''Content-Encoding'' \<mapsto> FString ''response''],
            d_Body = [112, 111, 110, 103]\<rparr>"
  let ?req = "\<lparr>m_kind = IsRequest, m_Id = ''req-1'', m_Service = ''accounts'', m_Endpoint = ''login'',
        m_Headers = Map.empty, m_Payload = [112, 105, 110, 103]\<rparr>"
  let ?env = "\<lparr>se_uuid = Inl (ErrOther ''no entropy''), se_ready = ReadyFired, se_publish = None,
        se_timer = True, se_pick_timer = False, se_during_ready = id,
        se_during_publish = handled_between ?t2h ?d id id, se_during_reply = id\<rparr>"
  have 1: "chans_allocated NewTransport"
    by (rule NewTransport_chans_allocated)
  have 2: "m_Id ?req = ''req-1'' \<and> ''req-1'' \<noteq> [] \<or> m_Id ?req = [] \<and> se_uuid ?env = Inr ''req-1''"
    by simp
  have 3: "d_CorrelationId ?d = ''req-1''"
    and 4: "d_Headers ?d ''Content-Encoding'' = Some (FString ''response'')"
    and 5: "d_Body ?d = [112, 111, 110, 103]"
    by simp_all
  have 6: "undisturbed ''req-1'' (nextChan NewTransport) id"
    by (rule undisturbed_id)
  have 7: "keeps_reply (nextChan NewTransport) (deliveryToMessage ?t2h ?d NewResponse) id"
    by (rule keeps_reply_id)
  have 8: "se_during_ready ?env = handled_between ?t2h ?d id id
         \<and> keeps_reply (nextChan NewTransport) (deliveryToMessage ?t2h ?d NewResponse) (se_during_publish ?env)
         \<and> keeps_reply (nextChan NewTransport) (deliveryToMessage ?t2h ?d NewResponse) (se_during_reply ?env)
       \<or> undisturbed ''req-1'' (nextChan NewTransport) (se_during_ready ?env)
         \<and> se_during_publish ?env = handled_between ?t2h ?d id id
         \<and> keeps_reply (nextChan NewTransport) (deliveryToMessage ?t2h ?d NewResponse) (se_during_reply ?env)
       \<or> undisturbed ''req-1'' (nextChan NewTransport) (se_during_ready ?env)
         \<and> undisturbed ''req-1'' (nextChan NewTransport) (se_during_publish ?env)
         \<and> se_during_reply ?env = handled_between ?t2h ?d id id"
    using 6 7 by simp
  show ?thesis
    using Send_returns_matching_reply [OF 1 2 3 4 5 6 7 8, of "\<lambda>h k. map_option FString (h k)" "''typhon''"]
    by simp
qed

text \<open>
  The reply is handed over while the caller waits, and still \<^verbatim>\<open>Send\<close> returns
  \<^verbatim>\<open>ErrTimeout\<close>: the timer has fired, and \<^verbatim>\<open>select\<close> picks it.
\<close>

theorem Send_timer_race:
  "map_option (snd \<circ> snd)
     (Send (\<lambda>h k. map_option FString (h k)) ''typhon'' NewTransport
       \<lparr>m_kind = IsRequest, m_Id = ''req-1'', m_Service = ''accounts'', m_Endpoint = ''login'',
        m_Headers = Map.empty, m_Payload = [112, 105, 110, 103]\<rparr>
       \<lparr>se_uuid = Inl (ErrOther ''no entropy''), se_ready = ReadyFired, se_publish = None,
        se_timer = True, se_pick_timer = True, se_during_ready = id, se_during_publish = id,
        se_during_reply = (\<lambda>s. fst (handleRspDelivery
           (\<lambda>tbl k. case tbl k of Some (FString v) \<Rightarrow> Some v | _ \<Rightarrow> None) s
           \<lparr>d_CorrelationId = ''req-1'', d_ReplyTo = [], d_RoutingKey = ''amq.rabbitmq.reply-to'',
            d_Headers = [''Content-Encoding'' \<mapsto> FString ''response''],
            d_Body = [112, 111, 110, 103]\<rparr>))\<rparr>)
   = Some (Inl ErrTimeout)
   \<and> snd (handleRspDelivery
           (\<lambda>tbl k. case tbl k of Some (FString v) \<Rightarrow> Some v | _ \<Rightarrow> None)
           (Publish (start (fst (Send_register NewTransport ''req-1''))) ''typhon'' ''accounts''
              \<lparr>p_CorrelationId = ''req-1'', p_Body = [112, 105, 110, 103],
               p_ReplyTo = DirectReplyQueue,
               p_Headers = (\<lambda>k. map_option FString
                  ([''Content-Encoding'' \<mapsto> ''request'', ''Service'' \<mapsto> ''accounts'',
                    ''Endpoint'' \<mapsto> ''login''] k))\<rparr>)
           \<lparr>d_CorrelationId = ''req-1'', d_ReplyTo = [], d_RoutingKey = ''amq.rabbitmq.reply-to'',
            d_Headers = [''Content-Encoding'' \<mapsto> FString ''response''],
            d_Body = [112, 111, 110, 103]\<rparr>)
   = Delivered"
  by (simp add: Send_def Send_assignId_def Send_register_def Send_awaitReply_def Send_deferred_def
        Send_headers_def Publish_def start_def NewTransport_def handleRspDelivery_def
        contentEncoding_def deliveryToMessage_def NewResponse_def Let_def)

subsubsection \<open>The entry in the table of calls in flight\<close>

lemma Send_deferred_absent: "inflightReqs (Send_deferred t i) i = None"
  by (simp add: Send_deferred_def)

lemma Send_awaitReply_inflight:
  "Send_awaitReply t c timer pick = Some (t', r) \<Longrightarrow> inflightReqs t' = inflightReqs t"
  by (auto simp: Send_awaitReply_def split: list.splits if_splits)

text \<open>
  C2. Whatever the environment does and on whichever path \<^verbatim>\<open>Send\<close> returns (the
  response, either timeout, the failure of the uuid generator or a publish error), no entry
  is registered under the request's id when it returns. On the path of the uuid failure
  the request has the empty id and \<^verbatim>\<open>Send\<close> returns before it registers anything; there
  the statement rests on the empty string not being a key of \<^verbatim>\<open>inflightReqs\<close>, which
  holds of the new transport and is kept by the transport's operations (the lemmas that
  follow the example).
\<close>

theorem Send_leaves_no_inflight_entry:
  assumes inv: "[] \<notin> dom (inflightReqs t)"
    and ret: "Send h2t exchange t req env = Some (t', req', r)"
  shows "inflightReqs t' (m_Id req') = None"
proof (cases "Send_assignId req (se_uuid env)")
  case (Inl e)
  then have "m_Id req = []"
    by (auto simp: Send_assignId_def split: if_splits)
  moreover have "t' = t" "req' = req"
    using ret Inl by (simp_all add: Send_def)
  ultimately show ?thesis
    using inv by (simp add: domIff)
next
  case (Inr req1)
  then show ?thesis
    using ret
    by (auto simp: Send_def Let_def split_beta Send_deferred_absent
          split: ready_event.splits option.splits)
qed

theorem Send_leaves_no_inflight_entry_witness:
  "[] \<notin> dom (inflightReqs NewTransport)
   \<and> Send (\<lambda>h k. map_option FString (h k)) ''typhon'' NewTransport
       \<lparr>m_kind = IsRequest, m_Id = ''req-1'', m_Service = ''accounts'', m_Endpoint = ''login'',
        m_Headers = Map.empty, m_Payload = [112, 105, 110, 103]\<rparr>
       \<lparr>se_uuid = Inr ''unused'', se_ready = ReadyFired, se_publish = None,
        se_timer = True, se_pick_timer = False, se_during_ready = id, se_during_publish = id,
        se_during_reply = id\<rparr> \<noteq> None
   \<and> inflightReqs (fst (the (Send (\<lambda>h k. map_option FString (h k)) ''typhon'' NewTransport
       \<lparr>m_kind = IsRequest, m_Id = ''req-1'', m_Service = ''accounts'', m_Endpoint = ''login'',
        m_Headers = Map.empty, m_Payload = [112, 105, 110, 103]\<rparr>
       \<lparr>se_uuid = Inr ''unused'', se_ready = ReadyFired, se_publish = None,
        se_timer = True, se_pick_timer = False, se_during_ready = id, se_during_publish = id,
        se_during_reply = id\<rparr>))) ''req-1'' = None"
proof -
  let ?req = "\<lparr>m_kind = IsRequest, m_Id = ''req-1'', m_Service = ''accounts'', m_Endpoint = ''login'',
        m_Headers = Map.empty, m_Payload = [112, 105, 110, 103]\<rparr>"
  let ?env = "\<lparr>se_uuid = Inr ''unused'', se_ready = ReadyFired, se_publish = None,
        se_timer = True, se_pick_timer = False, se_during_ready = id, se_during_publish = id,
        se_during_reply = id\<rparr>"
  let ?h2t = "\<lambda>(h :: string \<rightharpoonup> string) k. map_option FString (h k)"
  have inv: "[] \<notin> dom (inflightReqs NewTransport)"
    by (simp add: NewTransport_def)
  obtain t' r where ret: "Send ?h2t ''typhon'' NewTransport ?req ?env = Some (t', ?req, r)"
    by (simp add: Send_def Send_assignId_def Send_register_def Send_awaitReply_def Let_def
          Publish_def start_def NewTransport_def)
  have "inflightReqs t' (m_Id ?req) = None"
    using inv ret by (rule Send_leaves_no_inflight_entry)
  then show ?thesis
    using inv ret by simp
qed

lemma Send_uuid_failure_before_registration:
  assumes "m_Id req = []" and "se_uuid env = Inl e"
  shows "Send h2t exchange t req env = Some (t, req, Inl e)"
  using assms by (simp add: Send_def Send_assignId_def)

lemma NewTransport_no_empty_key: "[] \<notin> dom (inflightReqs NewTransport)"
  by (simp add: NewTransport_def)

lemma handleRspDelivery_no_empty_key:
  "[] \<notin> dom (inflightReqs t) \<Longrightarrow> [] \<notin> dom (inflightReqs (fst (handleRspDelivery t2h t d)))"
  by (auto simp: handleRspDelivery_def Let_def split: option.splits if_splits)

lemma Send_register_no_empty_key:
  "[] \<notin> dom (inflightReqs t) \<Longrightarrow> i \<noteq> [] \<Longrightarrow> [] \<notin> dom (inflightReqs (fst (Send_register t i)))"
  by (simp add: Send_register_def Let_def)

lemma start_fields:
  "tb_dying (tomb (start t)) = tb_dying (tomb t)" "published (start t) = published t"
  "inflightReqs (start t) = inflightReqs t"
  by (simp_all add: start_def tomb_Go_def)

lemma Send_keeps_no_empty_key:
  assumes inv: "[] \<notin> dom (inflightReqs t)"
    and uuid: "\<And>u. se_uuid env = Inr u \<Longrightarrow> u \<noteq> []"
    and o1: "\<And>s. [] \<notin> dom (inflightReqs s) \<Longrightarrow> [] \<notin> dom (inflightReqs (se_during_ready env s))"
    and o2: "\<And>s. [] \<notin> dom (inflightReqs s) \<Longrightarrow> [] \<notin> dom (inflightReqs (se_during_publish env s))"
    and o3: "\<And>s. [] \<notin> dom (inflightReqs s) \<Longrightarrow> [] \<notin> dom (inflightReqs (se_during_reply env s))"
    and ret: "Send h2t exchange t req env = Some (t', req', r)"
  shows "[] \<notin> dom (inflightReqs t')"
proof (cases "Send_assignId req (se_uuid env)")
  case (Inl e)
  then show ?thesis using ret inv by (simp add: Send_def)
next
  case (Inr req1)
  then have ne: "m_Id req1 \<noteq> []"
    using uuid by (auto simp: Send_assignId_def split: if_splits sum.splits)
  let ?t1 = "fst (Send_register t (m_Id req1))"
  let ?t2 = "se_during_ready env (start ?t1)"
  have 1: "[] \<notin> dom (inflightReqs ?t1)"
    using inv ne by (rule Send_register_no_empty_key)
  then have 2: "[] \<notin> dom (inflightReqs ?t2)"
    by (intro o1) (simp add: start_fields)
  have d: "[] \<notin> dom (inflightReqs (Send_deferred s i))" if "[] \<notin> dom (inflightReqs s)" for s i
    using that by (simp add: Send_deferred_def)
  show ?thesis
  proof (cases "se_ready env")
    case TimerFired
    then show ?thesis
      using ret Inr 2 by (auto simp: Send_def Let_def split_beta Send_deferred_def domIff)
  next
    case ReadyFired
    let ?t3 = "se_during_publish env (Publish ?t2 exchange (m_Service req1)
                 \<lparr>p_CorrelationId = m_Id req1, p_Body = m_Payload req1,
                  p_ReplyTo = replyQueue ?t2, p_Headers = h2t (Send_headers req1)\<rparr>)"
    have 3: "[] \<notin> dom (inflightReqs ?t3)"
      using 2 by (intro o2) (simp add: Publish_def start_fields)
    then have 4: "[] \<notin> dom (inflightReqs (se_during_reply env ?t3))"
      by (rule o3)
    show ?thesis
    proof (cases "se_publish env")
      case (Some e)
      then show ?thesis
        using ret Inr ReadyFired 3 by (auto simp: Send_def Let_def split_beta Send_deferred_def domIff)
    next
      case None
      then obtain t4 where w: "Send_awaitReply (se_during_reply env ?t3) (snd (Send_register t (m_Id req1)))
                                 (se_timer env) (se_pick_timer env) = Some (t4, r)"
        and t': "t' = Send_deferred t4 (m_Id req1)"
        using ret Inr ReadyFired
        by (auto simp: Send_def Let_def split_beta split: option.splits)
      have "inflightReqs t4 = inflightReqs (se_during_reply env ?t3)"
        using w by (rule Send_awaitReply_inflight)
      then show ?thesis
        using 4 t' by (simp add: d)
    qed
  qed
qed

subsubsection \<open>The id\<close>

text \<open>
  C3. A request with a non-empty id keeps it: the generator's result plays no part, and
  \<^verbatim>\<open>Send\<close> returns, handing back the request unchanged, unless it stays blocked in its
  last \<^verbatim>\<open>select\<close>. A request with the empty id gets the generated uuid as its id when
  the generator succeeds, and \<^verbatim>\<open>Send\<close> returns, handing back the request under that
  id, unless it stays blocked. When the generator fails, \<^verbatim>\<open>Send\<close> returns that error,
  with the transport and the request untouched.
\<close>

theorem Send_assigns_id_only_when_empty:
  "(m_Id req \<noteq> [] \<longrightarrow>
      Send_assignId req (se_uuid env) = Inr req
      \<and> Send h2t exchange t req (env\<lparr>se_uuid := u'\<rparr>) = Send h2t exchange t req env
      \<and> (if Send_blocked h2t exchange t req env then Send h2t exchange t req env = None
         else \<exists>t' r. Send h2t exchange t req env = Some (t', req, r)))
   \<and> (m_Id req = [] \<longrightarrow>
      (\<forall>u. se_uuid env = Inr u \<longrightarrow>
         Send_assignId req (se_uuid env) = Inr (req\<lparr>m_Id := u\<rparr>)
         \<and> (if Send_blocked h2t exchange t (req\<lparr>m_Id := u\<rparr>) env
            then Send h2t exchange t req env = None
            else \<exists>t' r. Send h2t exchange t req env = Some (t', req\<lparr>m_Id := u\<rparr>, r)))
      \<and> (\<forall>e. se_uuid env = Inl e \<longrightarrow> Send h2t exchange t req env = Some (t, req, Inl e)))"
proof (intro conjI impI allI)
  assume ne: "m_Id req \<noteq> []"
  then show a: "Send_assignId req (se_uuid env) = Inr req"
    by (simp add: Send_assignId_def)
  show "Send h2t exchange t req (env\<lparr>se_uuid := u'\<rparr>) = Send h2t exchange t req env"
    using ne
    by (cases "se_ready env"; cases "se_publish env")
      (simp_all add: Send_def Send_assignId_def Let_def split_beta)
  show "if Send_blocked h2t exchange t req env then Send h2t exchange t req env = None
        else \<exists>t' r. Send h2t exchange t req env = Some (t', req, r)"
    using a by (rule Send_returns_unless_blocked)
next
  fix u
  assume "m_Id req = []" and "se_uuid env = Inr u"
  then show a: "Send_assignId req (se_uuid env) = Inr (req\<lparr>m_Id := u\<rparr>)"
    by (simp add: Send_assignId_def)
  show "if Send_blocked h2t exchange t (req\<lparr>m_Id := u\<rparr>) env
        then Send h2t exchange t req env = None
        else \<exists>t' r. Send h2t exchange t req env = Some (t', req\<lparr>m_Id := u\<rparr>, r)"
    using a by (rule Send_returns_unless_blocked)
next
  fix e
  assume "m_Id req = []" and "se_uuid env = Inl e"
  then show "Send h2t exchange t req env = Some (t, req, Inl e)"
    by (simp add: Send_def Send_assignId_def)
qed

text \<open>
  Three calls on a new transport whose timer fires in the last wait: with the id
  \<^verbatim>\<open>req-1\<close>, with no id and a generated uuid, and with no id and a failing generator.
\<close>

theorem Send_assigns_id_only_when_empty_witness:
  "(\<exists>t' r. Send (\<lambda>h k. map_option FString (h k)) ''typhon'' NewTransport
       \<lparr>m_kind = IsRequest, m_Id = ''req-1'', m_Service = ''accounts'', m_Endpoint = ''login'',
        m_Headers = Map.empty, m_Payload = []\<rparr>
       \<lparr>se_uuid = Inr ''6ba7b810-9dad-41d1-80b4-00c04fd430c8'', se_ready = ReadyFired,
        se_publish = None, se_timer = True, se_pick_timer = False, se_during_ready = id,
        se_during_publish = id, se_during_reply = id\<rparr>
     = Some (t',
         \<lparr>m_kind = IsRequest, m_Id = ''req-1'', m_Service = ''accounts'', m_Endpoint = ''login'',
          m_Headers = Map.empty, m_Payload = []\<rparr>, r))
   \<and> (\<exists>t' r. Send (\<lambda>h k. map_option FString (h k)) ''typhon'' NewTransport
       \<lparr>m_kind = IsRequest, m_Id = [], m_Service = ''accounts'', m_Endpoint = ''login'',
        m_Headers = Map.empty, m_Payload = []\<rparr>
       \<lparr>se_uuid = Inr ''6ba7b810-9dad-41d1-80b4-00c04fd430c8'', se_ready = ReadyFired,
        se_publish = None, se_timer = True, se_pick_timer = False, se_during_ready = id,
        se_during_publish = id, se_during_reply = id\<rparr>
     = Some (t',
         \<lparr>m_kind = IsRequest, m_Id = ''6ba7b810-9dad-41d1-80b4-00c04fd430c8'',
          m_Service = ''accounts'', m_Endpoint = ''login'', m_Headers = Map.empty,
          m_Payload = []\<rparr>, r))
   \<and> Send (\<lambda>h k. map_option FString (h k)) ''typhon'' NewTransport
       \<lparr>m_kind = IsRequest, m_Id = [], m_Service = ''accounts'', m_Endpoint = ''login'',
        m_Headers = Map.empty, m_Payload = []\<rparr>
       \<lparr>se_uuid = Inl (ErrOther ''no entropy''), se_ready = ReadyFired, se_publish = None,
        se_timer = True, se_pick_timer = False, se_during_ready = id, se_during_publish = id,
        se_during_reply = id\<rparr>
     = Some (NewTransport,
         \<lparr>m_kind = IsRequest, m_Id = [], m_Service = ''accounts'', m_Endpoint = ''login'',
          m_Headers = Map.empty, m_Payload = []\<rparr>, Inl (ErrOther ''no entropy''))"
proof -
  let ?u = "''6ba7b810-9dad-41d1-80b4-00c04fd430c8''"
  let ?req = "\<lparr>m_kind = IsRequest, m_Id = ''req-1'', m_Service = ''accounts'', m_Endpoint = ''login'',
      m_Headers = Map.empty, m_Payload = []\<rparr>"
  let ?anon = "\<lparr>m_kind = IsRequest, m_Id = [], m_Service = ''accounts'', m_Endpoint = ''login'',
      m_Headers = Map.empty, m_Payload = []\<rparr>"
  let ?ok = "\<lparr>se_uuid = Inr ?u, se_ready = ReadyFired, se_publish = None,
      se_timer = True, se_pick_timer = False, se_during_ready = id, se_during_publish = id,
      se_during_reply = id\<rparr>"
  let ?bad = "\<lparr>se_uuid = Inl (ErrOther ''no entropy''), se_ready = ReadyFired, se_publish = None,
      se_timer = True, se_pick_timer = False, se_during_ready = id, se_during_publish = id,
      se_during_reply = id\<rparr>"
  let ?h2t = "\<lambda>(h :: string \<rightharpoonup> string) k. map_option FString (h k)"
  have nb: "\<not> Send_blocked ?h2t ''typhon'' NewTransport r ?ok" for r
    by (simp add: Send_blocked_def)
  have "\<exists>t' r. Send ?h2t ''typhon'' NewTransport ?req ?ok = Some (t', ?req, r)"
    using Send_assigns_id_only_when_empty [of ?req ?ok ?h2t "''typhon''" NewTransport] nb
    by simp
  moreover have "\<exists>t' r. Send ?h2t ''typhon'' NewTransport ?anon ?ok = Some (t', ?anon\<lparr>m_Id := ?u\<rparr>, r)"
    using Send_assigns_id_only_when_empty [of ?anon ?ok ?h2t "''typhon''" NewTransport] nb
    by simp
  moreover have "Send ?h2t ''typhon'' NewTransport ?anon ?bad
                   = Some (NewTransport, ?anon, Inl (ErrOther ''no entropy''))"
    using Send_assigns_id_only_when_empty [of ?anon ?bad ?h2t "''typhon''" NewTransport] by simp
  ultimately show ?thesis by simp
qed

subsection \<open>Listeners\<close>

text \<open>
  C5. When a listener is registered for the service, \<^verbatim>\<open>Listen\<close> returns
  \<^verbatim>\<open>ErrAlreadyListening\<close> without starting a goroutine and leaves the transport exactly
  as it was: the caller's channel is neither closed nor sent on, and the registered
  listener stays.
\<close>

theorem Listen_refuses_second_listener:
  assumes "listeners t (deliveryChan serviceName) = Some tm"
  shows "Listen t serviceName rc ev consume_result = Some (t, Some ErrAlreadyListening, NotStarted)"
  using assms by (simp add: Listen_def)

lemma Listen_installs_listener:
  assumes "listeners t (deliveryChan serviceName) = None"
  shows "\<exists>t'. Listen t serviceName rc FirstReady None = Some (t', None, Looping)
           \<and> listeners t' (deliveryChan serviceName) = Some (nextTomb t)
           \<and> reqChans t' = reqChans t"
  using assms by (simp add: Listen_def listener_start_def start_def Let_def)

theorem Listen_refuses_second_listener_witness:
  "\<exists>t1. Listen NewTransport ''accounts'' 1 FirstReady None = Some (t1, None, Looping)
     \<and> Listen t1 ''accounts'' 2 FirstReady None = Some (t1, Some ErrAlreadyListening, NotStarted)"
proof -
  obtain t1 where 1: "Listen NewTransport ''accounts'' 1 FirstReady None = Some (t1, None, Looping)"
    and 2: "listeners t1 (deliveryChan ''accounts'') = Some (nextTomb NewTransport)"
    using Listen_installs_listener [of NewTransport "''accounts''" 1]
    by (auto simp: NewTransport_def)
  show ?thesis
    using 1 Listen_refuses_second_listener [OF 2, of 2 FirstReady None] by simp
qed

text \<open>
  C9. Without a listener for the service \<^verbatim>\<open>StopListening\<close> returns false and leaves
  the transport as it was. With a listener it marks that listener's tomb (and nothing
  else) as dying, and then returns, with true, exactly when the tomb is dead after the other
  goroutines have run, that is when the listener goroutine has gone; else it stays
  blocked. So whenever it returns, it returns true if and only if there was a listener.
\<close>

theorem StopListening_kills_and_waits:
  "(listeners t (deliveryChan serviceName) = None \<longrightarrow>
      StopListening t serviceName others = Some (t, False))
   \<and> (\<forall>tm. listeners t (deliveryChan serviceName) = Some tm \<longrightarrow>
        fst (StopListening_kill t serviceName) = t\<lparr>tombs := (tombs t)(tm := tomb_Kill (tombs t tm))\<rparr>
        \<and> tb_dying (tombs (fst (StopListening_kill t serviceName)) tm)
        \<and> StopListening t serviceName others
            = (if tb_dead (tombs (others (fst (StopListening_kill t serviceName))) tm)
               then Some (others (fst (StopListening_kill t serviceName)), True) else None))
   \<and> (\<forall>t' b. StopListening t serviceName others = Some (t', b) \<longrightarrow>
        (b \<longleftrightarrow> listeners t (deliveryChan serviceName) \<noteq> None))"
  by (auto simp: StopListening_def StopListening_kill_def tomb_Kill_def Let_def
        split: option.splits if_splits)

lemma listener_exit_effect:
  assumes "\<not> ch_closed (reqChans t rc)" and "tb_alive (tombs t tm) \<le> 1"
  shows "tb_dead (tombs (listener_exit t cn rc tm) tm)"
    and "listeners (listener_exit t cn rc tm) cn = None"
    and "ch_closed (reqChans (listener_exit t cn rc tm) rc)"
  using assms by (simp_all add: listener_exit_def tomb_done_def Let_def)

theorem StopListening_kills_and_waits_witness:
  "\<exists>t1 t2. Listen NewTransport ''accounts'' 1 FirstReady None = Some (t1, None, Looping)
     \<and> StopListening t1 ''accounts'' (\<lambda>s. listener_exit s ''accounts'' 1 0) = Some (t2, True)
     \<and> tb_dead (tombs t2 0) \<and> listeners t2 ''accounts'' = None \<and> ch_closed (reqChans t2 1)
     \<and> StopListening t2 ''accounts'' id = Some (t2, False)"
proof -
  let ?others = "\<lambda>s. listener_exit s ''accounts'' 1 0"
  obtain t1 where 1: "Listen NewTransport ''accounts'' 1 FirstReady None = Some (t1, None, Looping)"
    and l: "listeners t1 (deliveryChan ''accounts'') = Some 0"
    and t1: "t1 = NewTransport\<lparr>runOnce := True, tomb := tomb_Go new_tomb, nextTomb := 1,
                tombs := (\<lambda>_. new_tomb)(0 := tomb_Go new_tomb),
                listeners := [''accounts'' \<mapsto> 0]\<rparr>"
    by (simp add: Listen_def listener_start_def start_def Let_def NewTransport_def deliveryChan_def)
  define k where "k = fst (StopListening_kill t1 ''accounts'')"
  define t2 where "t2 = listener_exit k ''accounts'' 1 0"
  note h = StopListening_kills_and_waits [of t1 "''accounts''" ?others, folded k_def]
  have k: "k = t1\<lparr>tombs := (tombs t1)(0 := tomb_Kill (tombs t1 0))\<rparr>"
    using h l by blast
  have opn: "\<not> ch_closed (reqChans k 1)" and one: "tb_alive (tombs k 0) \<le> 1"
    unfolding k by (simp_all add: t1 NewTransport_def tomb_Kill_def tomb_Go_def new_tomb_def)
  note e = listener_exit_effect [OF opn one, of "''accounts''", folded t2_def]
  have "StopListening t1 ''accounts'' ?others = (if tb_dead (tombs t2 0) then Some (t2, True) else None)"
    using h l unfolding t2_def by blast
  then have 2: "StopListening t1 ''accounts'' ?others = Some (t2, True)"
    using e(1) by simp
  have "listeners t2 (deliveryChan ''accounts'') = None"
    using e(2) by (simp add: deliveryChan_def)
  then have 3: "StopListening t2 ''accounts'' id = Some (t2, False)"
    using StopListening_kills_and_waits [of t2 "''accounts''" id] by blast
  show ?thesis
    using 1 2 3 e by blast
qed

subsection \<open>Respond\<close>

lemma start_idem: "start (start t) = start t"
  by (simp add: start_def)

lemma soonest_le: "soonest a l \<le> l"
  by (simp add: soonest_def split: option.splits)

lemma Respond_select_sound:
  "snd (Respond_select r d ch) \<le> respondTimeout
   \<and> (case fst (Respond_select r d ch) of
        RespondReady \<Rightarrow> due r (snd (Respond_select r d ch))
      | RespondDying \<Rightarrow> due d (snd (Respond_select r d ch))
      | RespondTimeout \<Rightarrow> snd (Respond_select r d ch) = respondTimeout)"
proof -
  define w where "w = soonest r (soonest d respondTimeout)"
  define ready where "ready = (if due r w then [RespondReady] else []) @
                (if due d w then [RespondDying] else []) @
                (if respondTimeout \<le> w then [RespondTimeout] else [])"
  have sel: "Respond_select r d ch = (ready ! (ch mod length ready), w)"
    by (simp add: Respond_select_def Let_def w_def ready_def)
  have le: "w \<le> respondTimeout"
    unfolding w_def by (auto simp: soonest_def min_def split: option.splits)
  have ne: "ready \<noteq> []"
    unfolding ready_def w_def
    by (auto simp: soonest_def due_def min_def split: option.splits if_splits)
  then have "ready ! (ch mod length ready) \<in> set ready"
    by (intro nth_mem mod_less_divisor) simp
  then have "ready ! (ch mod length ready) = RespondReady \<and> due r w
      \<or> ready ! (ch mod length ready) = RespondDying \<and> due d w
      \<or> ready ! (ch mod length ready) = RespondTimeout \<and> respondTimeout \<le> w"
    unfolding ready_def by (auto split: if_splits)
  then show ?thesis
    unfolding sel using le by auto
qed

lemma Respond_select_timeout:
  "\<not> due r respondTimeout \<Longrightarrow> \<not> due d respondTimeout
   \<Longrightarrow> Respond_select r d ch = (RespondTimeout, respondTimeout)"
  by (auto simp: Respond_select_def due_def soonest_def Let_def min_def split: option.splits)

lemma Respond_select_ready:
  "r = Some a \<Longrightarrow> a < respondTimeout \<Longrightarrow> \<not> due d a
   \<Longrightarrow> Respond_select r d ch = (RespondReady, a)"
  by (auto simp: Respond_select_def due_def soonest_def Let_def min_def split: option.splits)

lemma Respond_select_dying:
  "d = Some a \<Longrightarrow> a < respondTimeout \<Longrightarrow> \<not> due r a
   \<Longrightarrow> Respond_select r d ch = (RespondDying, a)"
  by (auto simp: Respond_select_def due_def soonest_def Let_def min_def split: option.splits)

lemma Respond_by_event:
  "Respond h2t t req rsp env =
     (case fst (Respond_select (re_ready_at env)
                  (if tb_dying (tomb t) then Some 0 else re_dying_at env) (re_choice env)) of
        RespondReady \<Rightarrow>
          ((start t)\<lparr>published := published t @
             [([], map_get (m_Headers req) ''X-Rabbit-ReplyTo'',
               \<lparr>p_CorrelationId = m_Id rsp, p_Body = m_Payload rsp, p_ReplyTo = [],
                p_Headers = h2t ((m_Headers rsp)(''Content-Encoding'' \<mapsto> ''response''))\<rparr>)]\<rparr>,
           re_publish env,
           snd (Respond_select (re_ready_at env)
                  (if tb_dying (tomb t) then Some 0 else re_dying_at env) (re_choice env)))
      | RespondDying \<Rightarrow>
          ((start t)\<lparr>tomb := tomb_Kill (tomb (start t))\<rparr>, Some ErrDying,
           snd (Respond_select (re_ready_at env)
                  (if tb_dying (tomb t) then Some 0 else re_dying_at env) (re_choice env)))
      | RespondTimeout \<Rightarrow>
          (start t, Some ErrTimeout,
           snd (Respond_select (re_ready_at env)
                  (if tb_dying (tomb t) then Some 0 else re_dying_at env) (re_choice env))))"
  by (simp add: Respond_def Publish_def Let_def split_beta start_fields start_idem
        cong: respond_event.case_cong split del: if_split)

text \<open>
  C7, as the code has it. \<^verbatim>\<open>Respond\<close> waits at most 10 seconds in its \<^verbatim>\<open>select\<close>.
  It then has returned \<^verbatim>\<open>ErrTimeout\<close> after the full 10 seconds, publishing nothing;
  or \<^verbatim>\<open>ErrDying\<close>, the tomb dying by then, publishing nothing; or, the connection
  ready by then, it has made one call of \<^verbatim>\<open>Publish\<close>, to the default exchange, with the
  request's \<^verbatim>\<open>X-Rabbit-ReplyTo\<close> header as routing key, the response's id as correlation
  id, its payload as body, and its headers with \<^verbatim>\<open>Content-Encoding\<close> set to
  \<^verbatim>\<open>response\<close>, and has returned the result of that call. It returns \<^verbatim>\<open>ErrTimeout\<close>
  when neither readiness nor the tomb's death comes within the 10 seconds, it publishes
  when readiness comes before them and before the tomb is dying, and it returns
  \<^verbatim>\<open>ErrDying\<close> when the tomb is dying before them and before readiness.
\<close>

theorem Respond_outcomes:
  "snd (snd (Respond h2t t req rsp env)) \<le> 10 * Second
   \<and> (fst (snd (Respond h2t t req rsp env)) = Some ErrTimeout
        \<and> published (fst (Respond h2t t req rsp env)) = published t
        \<and> snd (snd (Respond h2t t req rsp env)) = 10 * Second
      \<or> fst (snd (Respond h2t t req rsp env)) = Some ErrDying
        \<and> published (fst (Respond h2t t req rsp env)) = published t
        \<and> due (if tb_dying (tomb t) then Some 0 else re_dying_at env) (snd (snd (Respond h2t t req rsp env)))
      \<or> fst (snd (Respond h2t t req rsp env)) = re_publish env
        \<and> published (fst (Respond h2t t req rsp env)) = published t @
            [([], map_get (m_Headers req) ''X-Rabbit-ReplyTo'',
           \<lparr>p_CorrelationId = m_Id rsp, p_Body = m_Payload rsp, p_ReplyTo = [],
            p_Headers = h2t ((m_Headers rsp)(''Content-Encoding'' \<mapsto> ''response''))\<rparr>)]
        \<and> due (re_ready_at env) (snd (snd (Respond h2t t req rsp env))))
   \<and> (\<not> due (re_ready_at env) (10 * Second) \<and> \<not> due (if tb_dying (tomb t) then Some 0 else re_dying_at env) (10 * Second)
        \<longrightarrow> Respond h2t t req rsp env = (start t, Some ErrTimeout, 10 * Second))
   \<and> (\<forall>a. re_ready_at env = Some a \<and> a < 10 * Second \<and> \<not> due (if tb_dying (tomb t) then Some 0 else re_dying_at env) a
        \<longrightarrow> Respond h2t t req rsp env =
            ((start t)\<lparr>published := published t @
               [([], map_get (m_Headers req) ''X-Rabbit-ReplyTo'',
           \<lparr>p_CorrelationId = m_Id rsp, p_Body = m_Payload rsp, p_ReplyTo = [],
            p_Headers = h2t ((m_Headers rsp)(''Content-Encoding'' \<mapsto> ''response''))\<rparr>)]\<rparr>,
             re_publish env, a))
   \<and> (\<forall>a. (if tb_dying (tomb t) then Some 0 else re_dying_at env) = Some a \<and> a < 10 * Second \<and> \<not> due (re_ready_at env) a
        \<longrightarrow> fst (snd (Respond h2t t req rsp env)) = Some ErrDying
            \<and> published (fst (Respond h2t t req rsp env)) = published t
            \<and> snd (snd (Respond h2t t req rsp env)) = a)"
proof -
  define dy where "dy = (if tb_dying (tomb t) then Some 0 else re_dying_at env)"
  define R where "R = Respond h2t t req rsp env"
  define sel where "sel = Respond_select (re_ready_at env) dy (re_choice env)"
  have by_ev: "R = (case fst sel of
        RespondReady \<Rightarrow>
          ((start t)\<lparr>published := published t @ 
            [([], map_get (m_Headers req) ''X-Rabbit-ReplyTo'',
              \<lparr>p_CorrelationId = m_Id rsp, p_Body = m_Payload rsp, p_ReplyTo = [],
               p_Headers = h2t ((m_Headers rsp)(''Content-Encoding'' \<mapsto> ''response''))\<rparr>)]\<rparr>, re_publish env, snd sel)
      | RespondDying \<Rightarrow> ((start t)\<lparr>tomb := tomb_Kill (tomb (start t))\<rparr>, Some ErrDying, snd sel)
      | RespondTimeout \<Rightarrow> (start t, Some ErrTimeout, snd sel))"
    unfolding R_def sel_def dy_def by (rule Respond_by_event)
  have sound: "snd sel \<le> respondTimeout
     \<and> (case fst sel of RespondReady \<Rightarrow> due (re_ready_at env) (snd sel)
         | RespondDying \<Rightarrow> due dy (snd sel)
         | RespondTimeout \<Rightarrow> snd sel = respondTimeout)"
    unfolding sel_def by (rule Respond_select_sound)
  have T: "respondTimeout = 10 * Second"
    by (simp add: respondTimeout_def)
  have 1: "snd (snd R) \<le> 10 * Second"
    using sound unfolding by_ev T by (cases "fst sel") simp_all
  have 2: "fst (snd R) = Some ErrTimeout \<and> published (fst R) = published t
        \<and> snd (snd R) = 10 * Second
      \<or> fst (snd R) = Some ErrDying \<and> published (fst R) = published t \<and> due dy (snd (snd R))
      \<or> fst (snd R) = re_publish env \<and> published (fst R) = published t @ 
            [([], map_get (m_Headers req) ''X-Rabbit-ReplyTo'',
              \<lparr>p_CorrelationId = m_Id rsp, p_Body = m_Payload rsp, p_ReplyTo = [],
               p_Headers = h2t ((m_Headers rsp)(''Content-Encoding'' \<mapsto> ''response''))\<rparr>)]
        \<and> due (re_ready_at env) (snd (snd R))"
    using sound unfolding by_ev T by (cases "fst sel") (simp_all add: start_fields)
  have 3: "R = (start t, Some ErrTimeout, 10 * Second)"
    if "\<not> due (re_ready_at env) (10 * Second)" and "\<not> due dy (10 * Second)"
  proof -
    have "sel = (RespondTimeout, respondTimeout)"
      unfolding sel_def using that by (intro Respond_select_timeout) (simp_all add: T)
    then show ?thesis
      unfolding by_ev by (simp add: T)
  qed
  have 4: "R = ((start t)\<lparr>published := published t @ 
            [([], map_get (m_Headers req) ''X-Rabbit-ReplyTo'',
              \<lparr>p_CorrelationId = m_Id rsp, p_Body = m_Payload rsp, p_ReplyTo = [],
               p_Headers = h2t ((m_Headers rsp)(''Content-Encoding'' \<mapsto> ''response''))\<rparr>)]\<rparr>, re_publish env, a)"
    if "re_ready_at env = Some a" and "a < 10 * Second" and "\<not> due dy a" for a
  proof -
    have "sel = (RespondReady, a)"
      unfolding sel_def using that by (intro Respond_select_ready) (simp_all add: T)
    then show ?thesis
      unfolding by_ev by simp
  qed
  have 5: "fst (snd R) = Some ErrDying \<and> published (fst R) = published t \<and> snd (snd R) = a"
    if "dy = Some a" and "a < 10 * Second" and "\<not> due (re_ready_at env) a" for a
  proof -
    have "sel = (RespondDying, a)"
      unfolding sel_def using that by (intro Respond_select_dying) (simp_all add: T)
    then show ?thesis
      unfolding by_ev by (simp add: start_fields)
  qed
  show ?thesis
    using 1 2 3 4 5 unfolding R_def dy_def by blast
qed

text \<open>
  Readiness after 3 seconds: the response is published and the broker's error returned.
  Readiness after 11 seconds: \<^verbatim>\<open>ErrTimeout\<close> after 10.
\<close>

theorem Respond_outcomes_witness:
  "Respond (\<lambda>h k. map_option FString (h k)) NewTransport
     \<lparr>m_kind = IsRequest, m_Id = ''req-1'', m_Service = ''accounts'', m_Endpoint = ''login'',
      m_Headers = [''X-Rabbit-ReplyTo'' \<mapsto> ''amq.gen-7''], m_Payload = []\<rparr>
     \<lparr>m_kind = IsResponse, m_Id = ''req-1'', m_Service = [], m_Endpoint = [],
      m_Headers = Map.empty, m_Payload = [111, 107]\<rparr>
     \<lparr>re_ready_at = Some (3 * Second), re_dying_at = None, re_choice = 0,
      re_publish = Some (ErrOther ''channel closed'')\<rparr>
   = ((start NewTransport)\<lparr>published :=
        [([], ''amq.gen-7'',
          \<lparr>p_CorrelationId = ''req-1'', p_Body = [111, 107], p_ReplyTo = [],
           p_Headers = (\<lambda>k. map_option FString ([''Content-Encoding'' \<mapsto> ''response''] k))\<rparr>)]\<rparr>,
      Some (ErrOther ''channel closed''), 3 * Second)
   \<and> Respond (\<lambda>h k. map_option FString (h k)) NewTransport
     \<lparr>m_kind = IsRequest, m_Id = ''req-1'', m_Service = ''accounts'', m_Endpoint = ''login'',
      m_Headers = [''X-Rabbit-ReplyTo'' \<mapsto> ''amq.gen-7''], m_Payload = []\<rparr>
     \<lparr>m_kind = IsResponse, m_Id = ''req-1'', m_Service = [], m_Endpoint = [],
      m_Headers = Map.empty, m_Payload = [111, 107]\<rparr>
     \<lparr>re_ready_at = Some (11 * Second), re_dying_at = None, re_choice = 0,
      re_publish = None\<rparr>
   = (start NewTransport, Some ErrTimeout, 10 * Second)"
proof -
  let ?h2t = "\<lambda>(h :: string \<rightharpoonup> string) k. map_option FString (h k)"
  let ?req = "\<lparr>m_kind = IsRequest, m_Id = ''req-1'', m_Service = ''accounts'', m_Endpoint = ''login'',
      m_Headers = [''X-Rabbit-ReplyTo'' \<mapsto> ''amq.gen-7''], m_Payload = []\<rparr>"
  let ?rsp = "\<lparr>m_kind = IsResponse, m_Id = ''req-1'', m_Service = [], m_Endpoint = [],
      m_Headers = Map.empty, m_Payload = [111, 107]\<rparr>"
  let ?soon = "\<lparr>re_ready_at = Some (3 * Second), re_dying_at = None, re_choice = 0,
      re_publish = Some (ErrOther ''channel closed'')\<rparr>"
  let ?late = "\<lparr>re_ready_at = Some (11 * Second), re_dying_at = None, re_choice = 0,
      re_publish = None\<rparr>"
  have S: "0 < Second"
    by (simp add: Second_def)
  have "Respond ?h2t NewTransport ?req ?rsp ?soon
      = ((start NewTransport)\<lparr>published :=
        [([], ''amq.gen-7'',
          \<lparr>p_CorrelationId = ''req-1'', p_Body = [111, 107], p_ReplyTo = [],
           p_Headers = (\<lambda>k. map_option FString ([''Content-Encoding'' \<mapsto> ''response''] k))\<rparr>)]\<rparr>,
      Some (ErrOther ''channel closed''), 3 * Second)"
    using Respond_outcomes [of ?h2t NewTransport ?req ?rsp ?soon] S
    by (simp add: due_def map_get_def NewTransport_def new_tomb_def)
  moreover have "Respond ?h2t NewTransport ?req ?rsp ?late
      = (start NewTransport, Some ErrTimeout, 10 * Second)"
    using Respond_outcomes [of ?h2t NewTransport ?req ?rsp ?late] S
    by (simp add: due_def NewTransport_def new_tomb_def)
  ultimately show ?thesis
    by simp
qed

text \<open>
  On a transport whose tomb is dying, \<^verbatim>\<open>Respond\<close> returns \<^verbatim>\<open>ErrDying\<close> at once:
  neither a timeout nor a publish.
\<close>

theorem Respond_dying_counterexample:
  "Respond (\<lambda>h k. map_option FString (h k)) (NewTransport\<lparr>tomb := tomb_Kill new_tomb\<rparr>)
     \<lparr>m_kind = IsRequest, m_Id = ''req-1'', m_Service = ''accounts'', m_Endpoint = ''login'',
      m_Headers = [''X-Rabbit-ReplyTo'' \<mapsto> ''amq.gen-7''], m_Payload = []\<rparr>
     \<lparr>m_kind = IsResponse, m_Id = ''req-1'', m_Service = [], m_Endpoint = [],
      m_Headers = Map.empty, m_Payload = [111, 107]\<rparr>
     \<lparr>re_ready_at = None, re_dying_at = None, re_choice = 0, re_publish = None\<rparr>
   = (start (NewTransport\<lparr>tomb := tomb_Kill new_tomb\<rparr>), Some ErrDying, 0)
   \<and> published (start (NewTransport\<lparr>tomb := tomb_Kill new_tomb\<rparr>)) = []"
  by (simp add: Respond_def Respond_select_def due_def soonest_def respondTimeout_def Second_def
        start_def tomb_Kill_def tomb_Go_def new_tomb_def NewTransport_def Let_def)

end
